theory Spec2Isabelle
  imports Main
begin

section \<open>Text: the string operations of \<^verbatim>\<open>_normalize_text\<close>\<close>

text \<open>
  A Python \<^verbatim>\<open>str\<close> is modelled as a \<^typ>\<open>string\<close> whose characters are the code points
  below 256. On these, \<^verbatim>\<open>str.isspace\<close> holds for the twelve code points listed in
  \<open>isspace\<close>, and \<^verbatim>\<open>str.lower\<close> maps \<open>A..Z\<close> and the upper-case letters of Latin-1
  (192..222 without the multiplication sign 215) to the code point 32 above.
\<close>

definition backslash :: char where
  "backslash = CHR 0x5C"

definition newline :: char where
  "newline = CHR 0x0A"

definition isspace :: "char \<Rightarrow> bool" where
  "isspace c = ((of_char c :: nat) \<in> {9, 10, 11, 12, 13, 28, 29, 30, 31, 32, 133, 160})"

definition lower_char :: "char \<Rightarrow> char" where
  "lower_char c =
     (let n = (of_char c :: nat)
      in if (65 \<le> n \<and> n \<le> 90) \<or> (192 \<le> n \<and> n \<le> 222 \<and> n \<noteq> 215)
         then char_of (n + 32) else c)"

text \<open>\<^verbatim>\<open>s.lower()\<close>\<close>

definition py_lower :: "string \<Rightarrow> string" where
  "py_lower s = map lower_char s"

text \<open>\<^verbatim>\<open>s.strip()\<close>: leading and trailing white space removed.\<close>

definition py_strip :: "string \<Rightarrow> string" where
  "py_strip s = rev (dropWhile isspace (rev (dropWhile isspace s)))"

text \<open>
  \<^verbatim>\<open>s.replace(old, new)\<close>: the occurrences of \<open>old\<close> are found from the left and do not
  overlap. For an empty \<open>old\<close> Python puts \<open>new\<close> before every character and at the end.
\<close>

function py_replace :: "string \<Rightarrow> string \<Rightarrow> string \<Rightarrow> string" where
  "py_replace old new [] = (if old = [] then new else [])"
| "py_replace old new (c # cs) =
     (if old = [] then new @ c # py_replace old new cs
      else if take (length old) (c # cs) = old
           then new @ py_replace old new (drop (length old) (c # cs))
           else c # py_replace old new cs)"
  by pat_completeness auto
termination
  by (relation "measure (\<lambda>(old, new, s). length s)") auto

text \<open>
  \<^verbatim>\<open>s.split()\<close> without a separator: the maximal runs of characters that are not white
  space, scanned from the left; \<open>split_from w s\<close> holds the word \<open>w\<close> read so far.
\<close>

fun split_from :: "string \<Rightarrow> string \<Rightarrow> string list" where
  "split_from w [] = (if w = [] then [] else [w])"
| "split_from w (c # cs) =
     (if isspace c then (if w = [] then split_from [] cs else w # split_from [] cs)
      else split_from (w @ [c]) cs)"

definition py_split :: "string \<Rightarrow> string list" where
  "py_split s = split_from [] s"

text \<open>\<^verbatim>\<open>sep.join(words)\<close>\<close>

fun py_join :: "string \<Rightarrow> string list \<Rightarrow> string" where
  "py_join sep [] = []"
| "py_join sep [w] = w"
| "py_join sep (w # v # ws) = w @ sep @ py_join sep (v # ws)"

text \<open>
  \<^verbatim>\<open>_normalize_text\<close>: empty text stays empty; otherwise strip, undo the four escape
  sequences one after the other, collapse white space to single blanks, lower-case.
\<close>

definition normalize_text :: "string \<Rightarrow> string" where
  "normalize_text text =
     (if text = [] then []
      else
        let normalized = py_strip text;
            normalized = py_replace [backslash, CHR '',''] '','' normalized;
            normalized = py_replace [backslash, CHR '';''] '';'' normalized;
            normalized = py_replace [backslash, CHR ''n''] [newline] normalized;
            normalized = py_replace [backslash, backslash] [backslash] normalized;
            normalized = py_join '' '' (py_split normalized)
        in py_lower normalized)"

section \<open>Time values\<close>

text \<open>
  A \<^verbatim>\<open>datetime\<close> is the number of microseconds of its wall-clock fields since
  0001-01-01 00:00:00, and its \<^verbatim>\<open>tzinfo\<close>: \<open>None\<close> for a naive value, \<open>Some off\<close> for an
  aware one, \<open>off\<close> being its UTC offset in microseconds. Python holds the fields
  themselves; \<open>datetime_new\<close> builds the value from them as the constructor does, and
  \<open>str_datetime\<close> prints them as \<^verbatim>\<open>str\<close> does.
\<close>

record datetime =
  wall :: int
  tzinfo :: "int option"

definition MAX_WALL :: int where
  "MAX_WALL = 3652059 * 86400 * 1000000"

definition is_leap :: "int \<Rightarrow> bool" where
  "is_leap y = (y mod 4 = 0 \<and> (y mod 100 \<noteq> 0 \<or> y mod 400 = 0))"

definition days_before_year :: "int \<Rightarrow> int" where
  "days_before_year y = (y - 1) * 365 + (y - 1) div 4 - (y - 1) div 100 + (y - 1) div 400"

definition days_in_month :: "int \<Rightarrow> int \<Rightarrow> int" where
  "days_in_month y m =
     (if m = 2 \<and> is_leap y then 29
      else [0, 31, 28, 31, 30, 31, 30, 31, 31, 30, 31, 30, 31] ! nat m)"

definition days_before_month :: "int \<Rightarrow> int \<Rightarrow> int" where
  "days_before_month y m =
     [0, 0, 31, 59, 90, 120, 151, 181, 212, 243, 273, 304, 334] ! nat m
       + (if m > 2 \<and> is_leap y then 1 else 0)"

definition ymd2ord :: "int \<Rightarrow> int \<Rightarrow> int \<Rightarrow> int" where
  "ymd2ord y m d = days_before_year y + days_before_month y m + d"

definition ord2ymd :: "int \<Rightarrow> int \<times> int \<times> int" where
  "ord2ymd n0 =
     (let n = n0 - 1;
          n400 = n div 146097; n = n mod 146097;
          n100 = n div 36524; n = n mod 36524;
          n4 = n div 1461; n = n mod 1461;
          n1 = n div 365; n = n mod 365;
          y = n400 * 400 + 1 + n100 * 100 + n4 * 4 + n1
      in if n1 = 4 \<or> n100 = 4 then (y - 1, 12, 31)
         else
           let leapyear = (n1 = 3 \<and> (n4 \<noteq> 24 \<or> n100 = 3));
               m = (n + 50) div 32;
               preceding = [0, 0, 31, 59, 90, 120, 151, 181, 212, 243, 273, 304, 334] ! nat m
                             + (if m > 2 \<and> leapyear then 1 else 0)
           in if preceding > n
              then (y, m - 1, n - (preceding - days_in_month y (m - 1)) + 1)
              else (y, m, n - preceding + 1))"

text \<open>\<^verbatim>\<open>datetime(year, month, day, hour, minute, second, microsecond, tzinfo)\<close>\<close>

definition datetime_new ::
  "int \<Rightarrow> int \<Rightarrow> int \<Rightarrow> int \<Rightarrow> int \<Rightarrow> int \<Rightarrow> int \<Rightarrow> int option \<Rightarrow> datetime" where
  "datetime_new y m d hh mm ss us tz =
     \<lparr> wall = (((ymd2ord y m d - 1) * 24 + hh) * 60 + mm) * 60 * 1000000 + ss * 1000000 + us,
       tzinfo = tz \<rparr>"

definition zfill :: "nat \<Rightarrow> int \<Rightarrow> string" where
  "zfill k n = map (\<lambda>i. char_of (48 + nat (n div 10 ^ i mod 10))) (rev [0..<k])"

definition format_offset :: "int \<Rightarrow> string" where
  "format_offset off =
     (let sign = (if off < 0 then ''-'' else ''+'');
          a = \<bar>off\<bar>;
          hh = a div 3600000000;
          mm = a mod 3600000000 div 60000000;
          ss = a mod 60000000 div 1000000;
          us = a mod 1000000
      in sign @ zfill 2 hh @ '':'' @ zfill 2 mm
           @ (if ss \<noteq> 0 \<or> us \<noteq> 0
              then '':'' @ zfill 2 ss @ (if us \<noteq> 0 then ''.'' @ zfill 6 us else [])
              else []))"

text \<open>\<^verbatim>\<open>str(dt)\<close>, that is \<^verbatim>\<open>dt.isoformat(sep=' ')\<close>\<close>

definition str_datetime :: "datetime \<Rightarrow> string" where
  "str_datetime dt =
     (let days = wall dt div 86400000000;
          rest = wall dt mod 86400000000;
          (y, m, d) = ord2ymd (days + 1);
          us = rest mod 1000000
      in zfill 4 y @ ''-'' @ zfill 2 m @ ''-'' @ zfill 2 d @ '' ''
           @ zfill 2 (rest div 3600000000) @ '':''
           @ zfill 2 (rest mod 3600000000 div 60000000) @ '':''
           @ zfill 2 (rest mod 60000000 div 1000000)
           @ (if us \<noteq> 0 then ''.'' @ zfill 6 us else [])
           @ (case tzinfo dt of None \<Rightarrow> [] | Some off \<Rightarrow> format_offset off))"

text \<open>\<^verbatim>\<open>str(event.get('start', ''))\<close>: the field is present in every event; \<^verbatim>\<open>None\<close> prints as
  \<^verbatim>\<open>None\<close>.\<close>

definition str_time :: "datetime option \<Rightarrow> string" where
  "str_time t = (case t of None \<Rightarrow> ''None'' | Some dt \<Rightarrow> str_datetime dt)"

section \<open>Events, configuration and the engine's collaborators\<close>

text \<open>
  The canonical event the two clients produce (\<^verbatim>\<open>format_event_for_sync\<close>): a dictionary
  with these keys, the times being a \<^verbatim>\<open>datetime\<close> or \<^verbatim>\<open>None\<close>.
\<close>

record event =
  event_id :: "string option"
  summary :: string
  description :: string
  location :: string
  start :: "datetime option"
  end_time :: "datetime option"
  all_day :: bool
  source :: string
  raw_data :: string

datatype pyerror =
    UnknownTimeZoneError
  | OverflowError
  | AttributeError
  | ValueError
  | BackendError string

definition bind_result :: "pyerror + 'a \<Rightarrow> ('a \<Rightarrow> pyerror + 'b) \<Rightarrow> pyerror + 'b" where
  "bind_result m f = (case m of Inl e \<Rightarrow> Inl e | Inr x \<Rightarrow> f x)"

text \<open>
  A zone of the \<^verbatim>\<open>pytz\<close> database, as \<^verbatim>\<open>localize\<close> uses it: the UTC offset (in
  microseconds) it gives a naive wall-clock value, \<open>None\<close> where \<^verbatim>\<open>localize\<close> raises.
\<close>

type_synonym zone = "int \<Rightarrow> int option"

record config =
  sync_direction :: string
  source_of_truth :: string
  timezone :: string

text \<open>What the engine hands to a backend.\<close>

datatype google_time = GDate datetime | GDateTime datetime

record google_event =
  g_summary :: string
  g_description :: string
  g_location :: string
  g_start :: google_time
  g_end :: google_time

record icloud_event =
  i_summary :: string
  i_description :: string
  i_location :: string
  i_start :: "datetime option"
  i_end :: "datetime option"
  i_all_day :: bool

datatype call =
    ICloudCreateEvent icloud_event
  | GoogleCreateEvent google_event
  | GoogleUpdateEvent string google_event

text \<open>
  The engine object with what it calls from outside this module, each a parameter of the
  model: \<open>pytz_timezone\<close> is \<^verbatim>\<open>pytz.timezone\<close> (\<open>None\<close>: the name is unknown and the call
  raises), \<open>md5_hexdigest s\<close> is \<^verbatim>\<open>hashlib.md5(s.encode()).hexdigest()\<close>, and \<open>backend\<close> stands
  for the two clients: given the calls made so far and the next call, the message of the
  exception the call raises, or \<open>None\<close> when it returns.
\<close>

record engine =
  config :: config
  pytz_timezone :: "string \<Rightarrow> zone option"
  md5_hexdigest :: "string \<Rightarrow> string"
  backend :: "call list \<Rightarrow> call \<Rightarrow> string option"

text \<open>
  The printed action log, one entry for each block of \<^verbatim>\<open>print\<close> calls: the decision, the
  dry-run prefix and the event's title. The lines naming the calendars and the formatted
  times are left out.
\<close>

datatype log_entry =
    Updating bool string
  | SkippingUpToDate bool string
  | SkippingReschedule bool string
  | Rescheduling bool string
  | SkippingSimilar bool string
  | Creating bool string
  | ErrorCreating string pyerror
  | ErrorUpdating string pyerror
  | ICloudUpdateNotImplemented string
  | BidirectionalMode string

text \<open>What a pass changes outside itself: the backend calls made and the lines printed.\<close>

record world =
  calls :: "call list"
  printed :: "log_entry list"

record stats =
  created :: nat
  updated :: nat
  skipped :: nat


section \<open>Time comparison\<close>

text \<open>\<^verbatim>\<open>local_tz.localize(dt)\<close>: refuses an aware value.\<close>

definition localize :: "zone \<Rightarrow> datetime \<Rightarrow> pyerror + datetime" where
  "localize local_tz dt =
     (if tzinfo dt \<noteq> None then Inl ValueError
      else case local_tz (wall dt) of
             None \<Rightarrow> Inl OverflowError
           | Some off \<Rightarrow> Inr (dt\<lparr>tzinfo := Some off\<rparr>))"

text \<open>
  \<^verbatim>\<open>dt.astimezone(pytz.UTC)\<close>: the offset is subtracted, and the result must be a date
  of the years 1 to 9999. The engine calls it on aware values only; for a naive value
  Python would take the zone of the operating system, which is not modelled.
\<close>

definition astimezone_utc :: "datetime \<Rightarrow> pyerror + datetime" where
  "astimezone_utc dt =
     (case tzinfo dt of
        None \<Rightarrow> Inl ValueError
      | Some off \<Rightarrow>
          (let u = wall dt - off
           in if 0 \<le> u \<and> u < MAX_WALL then Inr \<lparr> wall = u, tzinfo = Some 0 \<rparr>
              else Inl OverflowError))"

text \<open>\<^verbatim>\<open>dt.replace(microsecond=0)\<close>\<close>

definition replace_microsecond_0 :: "datetime \<Rightarrow> datetime" where
  "replace_microsecond_0 dt = dt\<lparr>wall := wall dt - wall dt mod 1000000\<rparr>"

text \<open>
  \<^verbatim>\<open>abs((t1 - t2).total_seconds())\<close> in microseconds. \<^verbatim>\<open>total_seconds\<close> divides the
  microseconds of the difference by \<open>10\<^sup>6\<close>; its comparisons with 60 and 300 are exact, so
  the model compares the microseconds with \<open>60 * 10\<^sup>6\<close> and \<open>300 * 10\<^sup>6\<close>.
\<close>

definition abs_diff :: "datetime \<Rightarrow> datetime \<Rightarrow> int" where
  "abs_diff t1 t2 = \<bar>wall t1 - wall t2\<bar>"

text \<open>
  The three lines the aware branch and the mixed branch of \<^verbatim>\<open>_times_match\<close> share: both
  values in UTC, without microseconds, and their distance.
\<close>

definition utc_diff :: "datetime \<Rightarrow> datetime \<Rightarrow> pyerror + int" where
  "utc_diff time1 time2 =
     bind_result (astimezone_utc time1) (\<lambda>t1.
     bind_result (astimezone_utc time2) (\<lambda>t2.
       Inr (abs_diff (replace_microsecond_0 t1) (replace_microsecond_0 t2))))"

text \<open>
  \<^verbatim>\<open>_times_match\<close>. An exception inside the \<^verbatim>\<open>try\<close> leads to the comparison of the string
  forms of \<^verbatim>\<open>time1\<close> and \<^verbatim>\<open>time2\<close> as they are bound then: in the mixed branch a value
  that was localized before the failure is compared in its localized form. Both
  arguments are \<^verbatim>\<open>datetime\<close> objects here, so the \<^verbatim>\<open>hasattr\<close> test holds and the last
  \<^verbatim>\<open>return False\<close> is not reached.
\<close>

definition times_match :: "engine \<Rightarrow> datetime option \<Rightarrow> datetime option \<Rightarrow> bool" where
  "times_match self time1 time2 =
     (case (time1, time2) of
        (Some t1, Some t2) \<Rightarrow>
          if tzinfo t1 \<noteq> None \<and> tzinfo t2 \<noteq> None then
            (case utc_diff t1 t2 of
               Inr diff \<Rightarrow> diff \<le> 60 * 1000000
             | Inl e \<Rightarrow> str_datetime t1 = str_datetime t2)
          else if tzinfo t1 = None \<and> tzinfo t2 = None then
            abs_diff (replace_microsecond_0 t1) (replace_microsecond_0 t2) \<le> 60 * 1000000
          else
            (case pytz_timezone self (timezone (config self)) of
               None \<Rightarrow> str_datetime t1 = str_datetime t2
             | Some local_tz \<Rightarrow>
                 (case (if tzinfo t1 = None then localize local_tz t1 else Inr t1) of
                    Inl e \<Rightarrow> str_datetime t1 = str_datetime t2
                  | Inr t1' \<Rightarrow>
                      (case (if tzinfo t2 = None then localize local_tz t2 else Inr t2) of
                         Inl e \<Rightarrow> str_datetime t1' = str_datetime t2
                       | Inr t2' \<Rightarrow>
                           (case utc_diff t1' t2' of
                              Inr diff \<Rightarrow> diff \<le> 60 * 1000000
                            | Inl e \<Rightarrow> str_datetime t1' = str_datetime t2'))))
      | _ \<Rightarrow> False)"

text \<open>The local function \<^verbatim>\<open>normalize_time\<close> of \<^verbatim>\<open>_has_significant_time_difference\<close>.\<close>

definition normalize_time :: "engine \<Rightarrow> datetime \<Rightarrow> pyerror + datetime" where
  "normalize_time self dt =
     (if tzinfo dt = None
      then (case pytz_timezone self (timezone (config self)) of
              None \<Rightarrow> Inl UnknownTimeZoneError
            | Some local_tz \<Rightarrow> localize local_tz dt)
      else Inr dt)"

definition has_significant_time_difference ::
  "engine \<Rightarrow> datetime option \<Rightarrow> datetime option \<Rightarrow> datetime option \<Rightarrow> datetime option \<Rightarrow> bool" where
  "has_significant_time_difference self source_start target_start source_end target_end =
     (case (source_start, target_start, source_end, target_end) of
        (Some ss, Some ts, Some se, Some te) \<Rightarrow>
          (case
             bind_result (normalize_time self ss) (\<lambda>source_start_norm.
             bind_result (normalize_time self ts) (\<lambda>target_start_norm.
             bind_result (normalize_time self se) (\<lambda>source_end_norm.
             bind_result (normalize_time self te) (\<lambda>target_end_norm.
             bind_result (astimezone_utc source_start_norm) (\<lambda>source_start_utc.
             bind_result (astimezone_utc target_start_norm) (\<lambda>target_start_utc.
             bind_result (astimezone_utc source_end_norm) (\<lambda>source_end_utc.
             bind_result (astimezone_utc target_end_norm) (\<lambda>target_end_utc.
               let start_diff = abs_diff source_start_utc target_start_utc;
                   end_diff = abs_diff source_end_utc target_end_utc
               in Inr (start_diff > 300 * 1000000 \<or> end_diff > 300 * 1000000)))))))))
           of Inr b \<Rightarrow> b
            | Inl e \<Rightarrow> False)
      | _ \<Rightarrow> False)"

section \<open>Fingerprint and matching\<close>

text \<open>\<^verbatim>\<open>_calculate_event_hash\<close>: the digest of title and times; the location is not used.\<close>

definition calculate_event_hash :: "engine \<Rightarrow> event \<Rightarrow> string" where
  "calculate_event_hash self event =
     (let summary = normalize_text (summary event);
          start_time = str_time (start event);
          end_time = str_time (end_time event);
          hash_string = summary @ ''|'' @ start_time @ ''|'' @ end_time
      in md5_hexdigest self hash_string)"

text \<open>\<^verbatim>\<open>_needs_update\<close>\<close>

definition needs_update :: "engine \<Rightarrow> event \<Rightarrow> event \<Rightarrow> bool" where
  "needs_update self source_event target_event =
     (let source_title = normalize_text (summary source_event);
          target_title = normalize_text (summary target_event)
      in if source_title \<noteq> target_title then True
         else
           let source_desc = normalize_text (description source_event);
               target_desc = normalize_text (description target_event)
           in if source_desc \<noteq> target_desc then True
              else if \<not> times_match self (start source_event) (start target_event) then True
              else if \<not> times_match self (end_time source_event) (end_time target_event) then True
              else False)"

text \<open>
  The loop of \<^verbatim>\<open>_find_rescheduled_event\<close> over the target events; the first hit is
  returned.
\<close>

fun find_rescheduled_loop ::
  "engine \<Rightarrow> string \<Rightarrow> string \<Rightarrow> datetime option \<Rightarrow> datetime option \<Rightarrow> event list
     \<Rightarrow> event option" where
  "find_rescheduled_loop self source_summary source_description source_start source_end [] = None"
| "find_rescheduled_loop self source_summary source_description source_start source_end
       (target_event # rest) =
     (let target_summary = normalize_text (summary target_event);
          target_description = normalize_text (description target_event);
          target_start = start target_event;
          target_end = end_time target_event;
          summary_match = (source_summary = target_summary);
          description_match = (source_description \<noteq> [] \<and> target_description \<noteq> []
                                 \<and> source_description = target_description);
          start_times_match = times_match self source_start target_start;
          end_times_match = times_match self source_end target_end;
          times_actually_different = (\<not> (start_times_match \<and> end_times_match))
      in if summary_match \<and> times_actually_different
            \<and> has_significant_time_difference self source_start target_start source_end target_end
            \<and> (description_match \<or> (source_description = [] \<and> target_description = []))
         then Some target_event
         else find_rescheduled_loop self source_summary source_description source_start
                source_end rest)"

text \<open>\<^verbatim>\<open>_find_rescheduled_event\<close>\<close>

definition find_rescheduled_event :: "engine \<Rightarrow> event \<Rightarrow> event list \<Rightarrow> event option" where
  "find_rescheduled_event self source_event target_events =
     (let source_summary = normalize_text (summary source_event);
          source_description = normalize_text (description source_event);
          source_start = start source_event;
          source_end = end_time source_event
      in if source_summary = [] \<or> source_start = None \<or> source_end = None then None
         else find_rescheduled_loop self source_summary source_description source_start
                source_end target_events)"

text \<open>The loop of \<^verbatim>\<open>_find_similar_event\<close>.\<close>

fun find_similar_loop ::
  "engine \<Rightarrow> string \<Rightarrow> datetime option \<Rightarrow> datetime option \<Rightarrow> event list \<Rightarrow> event option" where
  "find_similar_loop self source_summary source_start source_end [] = None"
| "find_similar_loop self source_summary source_start source_end (target_event # rest) =
     (let target_summary = normalize_text (summary target_event);
          target_start = start target_event;
          target_end = end_time target_event
      in if source_summary = target_summary
            \<and> times_match self source_start target_start
            \<and> times_match self source_end target_end
         then Some target_event
         else find_similar_loop self source_summary source_start source_end rest)"

text \<open>\<^verbatim>\<open>_find_similar_event\<close>\<close>

definition find_similar_event :: "engine \<Rightarrow> event \<Rightarrow> event list \<Rightarrow> event option" where
  "find_similar_event self source_event target_events =
     (let source_summary = normalize_text (summary source_event);
          source_start = start source_event;
          source_end = end_time source_event
      in if source_summary = [] \<or> source_start = None \<or> source_end = None then None
         else find_similar_loop self source_summary source_start source_end target_events)"

section \<open>Backend calls\<close>

text \<open>
  \<^verbatim>\<open>_convert_to_google_format\<close>. The payload keeps the \<^verbatim>\<open>datetime\<close> whose \<^verbatim>\<open>strftime\<close> or
  \<^verbatim>\<open>isoformat\<close> text is sent. A missing time raises \<^verbatim>\<open>AttributeError\<close>; an aware end
  beside a naive start makes \<^verbatim>\<open>localize\<close> raise \<^verbatim>\<open>ValueError\<close>.
\<close>

definition convert_to_google_format :: "engine \<Rightarrow> event \<Rightarrow> pyerror + google_event" where
  "convert_to_google_format self event =
     (if all_day event then
        (case start event of
           None \<Rightarrow> Inl AttributeError
         | Some s \<Rightarrow>
             (case end_time event of
                None \<Rightarrow> Inl AttributeError
              | Some e \<Rightarrow>
                  Inr \<lparr> g_summary = summary event, g_description = description event,
                        g_location = location event, g_start = GDate s, g_end = GDate e \<rparr>))
      else
        (case start event of
           None \<Rightarrow> Inl AttributeError
         | Some start_dt \<Rightarrow>
             if tzinfo start_dt = None then
               (case pytz_timezone self (timezone (config self)) of
                  None \<Rightarrow> Inl UnknownTimeZoneError
                | Some local_tz \<Rightarrow>
                    bind_result (localize local_tz start_dt) (\<lambda>start_dt'.
                      case end_time event of
                        None \<Rightarrow> Inl AttributeError
                      | Some end_dt \<Rightarrow>
                          bind_result (localize local_tz end_dt) (\<lambda>end_dt'.
                            Inr \<lparr> g_summary = summary event, g_description = description event,
                                  g_location = location event, g_start = GDateTime start_dt',
                                  g_end = GDateTime end_dt' \<rparr>)))
             else
               (case end_time event of
                  None \<Rightarrow> Inl AttributeError
                | Some end_dt \<Rightarrow>
                    Inr \<lparr> g_summary = summary event, g_description = description event,
                          g_location = location event, g_start = GDateTime start_dt,
                          g_end = GDateTime end_dt \<rparr>)))"

text \<open>\<^verbatim>\<open>_convert_to_icloud_format\<close>\<close>

definition convert_to_icloud_format :: "event \<Rightarrow> icloud_event" where
  "convert_to_icloud_format event =
     \<lparr> i_summary = summary event, i_description = description event,
       i_location = location event, i_start = start event, i_end = end_time event,
       i_all_day = all_day event \<rparr>"

text \<open>
  A call of a client method: the call is recorded, and the exception it raises, if any,
  is returned to the caller's \<^verbatim>\<open>try\<close>.
\<close>

definition call_backend :: "engine \<Rightarrow> call \<Rightarrow> world \<Rightarrow> pyerror option \<times> world" where
  "call_backend self c w =
     (case backend self (calls w) c of
        None \<Rightarrow> (None, w\<lparr>calls := calls w @ [c]\<rparr>)
      | Some msg \<Rightarrow> (Some (BackendError msg), w\<lparr>calls := calls w @ [c]\<rparr>))"

text \<open>
  \<^verbatim>\<open>_create_event_in_target\<close>: the body of the \<^verbatim>\<open>try\<close> gives the exception raised, if
  any; the handler prints it and returns.
\<close>

definition create_event_in_target :: "engine \<Rightarrow> event \<Rightarrow> string \<Rightarrow> world \<Rightarrow> world" where
  "create_event_in_target self event direction w =
     (case
        (if direction = ''google_to_icloud'' then
           let event_data = convert_to_icloud_format event
           in call_backend self (ICloudCreateEvent event_data) w
         else if direction = ''icloud_to_google'' then
           (case convert_to_google_format self event of
              Inl e \<Rightarrow> (Some e, w)
            | Inr event_data \<Rightarrow> call_backend self (GoogleCreateEvent event_data) w)
         else (None, w))
      of (None, w') \<Rightarrow> w'
       | (Some e, w') \<Rightarrow> w'\<lparr>printed := printed w' @ [ErrorCreating (summary event) e]\<rparr>)"

text \<open>
  \<^verbatim>\<open>_update_event_in_target\<close>: towards iCloud nothing is sent, a line says so; towards
  Google the target's id must be there and not empty.
\<close>

definition update_event_in_target ::
  "engine \<Rightarrow> event \<Rightarrow> event \<Rightarrow> string \<Rightarrow> world \<Rightarrow> world" where
  "update_event_in_target self source_event target_event direction w =
     (case
        (if direction = ''google_to_icloud'' then
           (None, w\<lparr>printed := printed w @ [ICloudUpdateNotImplemented (summary source_event)]\<rparr>)
         else if direction = ''icloud_to_google'' then
           (case convert_to_google_format self source_event of
              Inl e \<Rightarrow> (Some e, w)
            | Inr event_data \<Rightarrow>
                (case event_id target_event of
                   None \<Rightarrow> (None, w)
                 | Some eid \<Rightarrow>
                     if eid \<noteq> [] then call_backend self (GoogleUpdateEvent eid event_data) w
                     else (None, w)))
         else (None, w))
      of (None, w') \<Rightarrow> w'
       | (Some e, w') \<Rightarrow> w'\<lparr>printed := printed w' @ [ErrorUpdating (summary source_event) e]\<rparr>)"

section \<open>The directional pass\<close>

text \<open>The first loop of \<^verbatim>\<open>_sync_events\<close>: a later target event replaces an earlier one
  with the same hash.\<close>

fun target_lookup_loop :: "engine \<Rightarrow> (string \<rightharpoonup> event) \<Rightarrow> event list \<Rightarrow> (string \<rightharpoonup> event)" where
  "target_lookup_loop self target_lookup [] = target_lookup"
| "target_lookup_loop self target_lookup (event # rest) =
     (let content_hash = calculate_event_hash self event
      in target_lookup_loop self (target_lookup(content_hash \<mapsto> event)) rest)"

definition emit :: "log_entry \<Rightarrow> world \<Rightarrow> world" where
  "emit l w = w\<lparr>printed := printed w @ [l]\<rparr>"

text \<open>The body of the second loop of \<^verbatim>\<open>_sync_events\<close>, for one source event.\<close>

definition sync_source_event ::
  "engine \<Rightarrow> (string \<rightharpoonup> event) \<Rightarrow> event list \<Rightarrow> string \<Rightarrow> bool \<Rightarrow> bool \<Rightarrow> event
     \<Rightarrow> stats \<times> world \<Rightarrow> stats \<times> world" where
  "sync_source_event self target_lookup target_events direction dry_run avoid_conflicts
       source_event st =
     (case st of (stats, w) \<Rightarrow>
        let content_hash = calculate_event_hash self source_event
        in (case target_lookup content_hash of
             Some target_event \<Rightarrow>
               (if needs_update self source_event target_event then
                  (let w = (if \<not> dry_run
                            then update_event_in_target self source_event target_event direction w
                            else w)
                   in (stats\<lparr>updated := updated stats + 1\<rparr>,
                       emit (Updating dry_run (summary source_event)) w))
                else
                  (stats\<lparr>skipped := skipped stats + 1\<rparr>,
                   emit (SkippingUpToDate dry_run (summary source_event)) w))
           | None \<Rightarrow>
               (case find_rescheduled_event self source_event target_events of
                  Some rescheduled_event \<Rightarrow>
                    (if avoid_conflicts then
                       (stats\<lparr>skipped := skipped stats + 1\<rparr>,
                        emit (SkippingReschedule dry_run (summary source_event)) w)
                     else
                       (let w = (if \<not> dry_run
                                 then update_event_in_target self source_event rescheduled_event
                                        direction w
                                 else w)
                        in (stats\<lparr>updated := updated stats + 1\<rparr>,
                            emit (Rescheduling dry_run (summary source_event)) w)))
                | None \<Rightarrow>
                    (case find_similar_event self source_event target_events of
                       Some existing_event \<Rightarrow>
                         (stats\<lparr>skipped := skipped stats + 1\<rparr>,
                          emit (SkippingSimilar dry_run (summary source_event)) w)
                     | None \<Rightarrow>
                         (let w = (if \<not> dry_run
                                   then create_event_in_target self source_event direction w
                                   else w)
                          in (stats\<lparr>created := created stats + 1\<rparr>,
                              emit (Creating dry_run (summary source_event)) w))))))"

fun sync_loop ::
  "engine \<Rightarrow> (string \<rightharpoonup> event) \<Rightarrow> event list \<Rightarrow> string \<Rightarrow> bool \<Rightarrow> bool \<Rightarrow> event list
     \<Rightarrow> stats \<times> world \<Rightarrow> stats \<times> world" where
  "sync_loop self target_lookup target_events direction dry_run avoid_conflicts [] st = st"
| "sync_loop self target_lookup target_events direction dry_run avoid_conflicts
       (source_event # rest) st =
     sync_loop self target_lookup target_events direction dry_run avoid_conflicts rest
       (sync_source_event self target_lookup target_events direction dry_run avoid_conflicts
          source_event st)"

text \<open>\<^verbatim>\<open>_sync_events\<close>\<close>

definition sync_events ::
  "engine \<Rightarrow> event list \<Rightarrow> event list \<Rightarrow> string \<Rightarrow> bool \<Rightarrow> bool \<Rightarrow> world \<Rightarrow> stats \<times> world" where
  "sync_events self source_events target_events direction dry_run avoid_conflicts w =
     (let stats = \<lparr> created = 0, updated = 0, skipped = 0 \<rparr>;
          target_lookup = target_lookup_loop self Map.empty target_events
      in sync_loop self target_lookup target_events direction dry_run avoid_conflicts
           source_events (stats, w))"

section \<open>The bidirectional pass\<close>


section \<open>Example values\<close>

text \<open>
  The engine used where a concrete one is needed: the zone database knows
  \<^verbatim>\<open>America/New_York\<close> only, at its winter offset of five hours behind UTC; the
  digest is the identity, a hash without collisions standing for MD5; no backend call
  fails.
\<close>

definition example_zone :: zone where
  "example_zone w = Some (- 18000000000)"

definition example_engine :: engine where
  "example_engine =
     \<lparr> config = \<lparr> sync_direction = ''both'', source_of_truth = ''auto'',
                   timezone = ''America/New_York'' \<rparr>,
       pytz_timezone = (\<lambda>name. if name = ''America/New_York'' then Some example_zone else None),
       md5_hexdigest = (\<lambda>s. s),
       backend = (\<lambda>cs c. None) \<rparr>"

text \<open>The same engine with backends whose every call raises.\<close>

definition failing_engine :: engine where
  "failing_engine = example_engine\<lparr>backend := (\<lambda>cs c. Some ''timed out'')\<rparr>"

definition empty_world :: world where
  "empty_world = \<lparr> calls = [], printed = [] \<rparr>"

text \<open>Standup, 2024-01-01 from 09:00 to 09:30 UTC.\<close>

definition standup :: event where
  "standup =
     \<lparr> event_id = Some ''g1'', summary = ''Standup'', description = [], location = [],
       start = Some (datetime_new 2024 1 1 9 0 0 0 (Some 0)),
       end_time = Some (datetime_new 2024 1 1 9 30 0 0 (Some 0)),
       all_day = False, source = ''google'', raw_data = [] \<rparr>"


text \<open>The standup without an end time; and a second standup at the same time, with notes.\<close>

definition standup_without_end :: event where
  "standup_without_end = standup\<lparr>end_time := None\<rparr>"

definition standup_with_notes :: event where
  "standup_with_notes = standup\<lparr>event_id := Some ''g2'', description := ''Bring notes''\<rparr>"



section \<open>Auxiliary notions\<close>


text \<open>
  The instants a \<^verbatim>\<open>datetime\<close> can hold, and the whole second of a count of microseconds:
  what is left when the microsecond field is set to zero.
\<close>

definition representable :: "int \<Rightarrow> bool" where
  "representable u = (0 \<le> u \<and> u < MAX_WALL)"

definition whole_seconds :: "int \<Rightarrow> int" where
  "whole_seconds u = u div 1000000"

text \<open>0001-01-01 00:00:00+05:00: in UTC its date would lie before the year 1.\<close>

definition first_day_east :: datetime where
  "first_day_east = datetime_new 1 1 1 0 0 0 0 (Some 18000000000)"



text \<open>
  The messages of the backend errors among printed lines, in order; and the messages of
  the calls that fail when the calls \<open>cs\<close> are made one after the other, \<open>made\<close> being
  the calls made before them.
\<close>

fun backend_errors :: "log_entry list \<Rightarrow> string list" where
  "backend_errors [] = []"
| "backend_errors (ErrorCreating s (BackendError msg) # ls) = msg # backend_errors ls"
| "backend_errors (ErrorUpdating s (BackendError msg) # ls) = msg # backend_errors ls"
| "backend_errors (l # ls) = backend_errors ls"

fun failed_calls :: "(call list \<Rightarrow> call \<Rightarrow> string option) \<Rightarrow> call list \<Rightarrow> call list \<Rightarrow> string list" where
  "failed_calls b made [] = []"
| "failed_calls b made (c # cs) =
     (case b made c of None \<Rightarrow> [] | Some msg \<Rightarrow> [msg]) @ failed_calls b (made @ [c]) cs"

text \<open>
  \<open>logged_failures b w w'\<close>: the world \<open>w'\<close> continues \<open>w\<close> by calls and printed lines, and
  the backend errors printed are, in order, the messages of the calls that failed.
\<close>

definition logged_failures ::
  "(call list \<Rightarrow> call \<Rightarrow> string option) \<Rightarrow> world \<Rightarrow> world \<Rightarrow> bool" where
  "logged_failures b w w' =
     (\<exists>cs ps. calls w' = calls w @ cs \<and> printed w' = printed w @ ps
        \<and> backend_errors ps = failed_calls b (calls w) cs)"

text \<open>The printed lines that are not backend errors.\<close>

fun is_backend_error :: "log_entry \<Rightarrow> bool" where
  "is_backend_error (ErrorCreating s (BackendError msg)) = True"
| "is_backend_error (ErrorUpdating s (BackendError msg)) = True"
| "is_backend_error l = False"

definition other_lines :: "log_entry list \<Rightarrow> log_entry list" where
  "other_lines ls = filter (\<lambda>l. \<not> is_backend_error l) ls"

text \<open>A retrospective on 2024-01-02 from 15:00 to 16:00 UTC, held by iCloud.\<close>

definition retro :: event where
  "retro =
     \<lparr> event_id = Some ''https://caldav.icloud.com/2.ics'', summary = ''Retro'',
       description = [], location = ''Room 2'',
       start = Some (datetime_new 2024 1 2 15 0 0 0 (Some 0)),
       end_time = Some (datetime_new 2024 1 2 16 0 0 0 (Some 0)),
       all_day = False, source = ''icloud'', raw_data = [] \<rparr>"





text \<open>
  The four replacements of \<^verbatim>\<open>_normalize_text\<close>, one after the other: the text between
  its \<^verbatim>\<open>strip\<close> and its \<^verbatim>\<open>split\<close>.
\<close>

definition unescape :: "string \<Rightarrow> string" where
  "unescape s =
     py_replace [backslash, backslash] [backslash]
       (py_replace [backslash, CHR ''n''] [newline]
          (py_replace [backslash, CHR '';''] '';''
             (py_replace [backslash, CHR '',''] '','' s)))"

section \<open>Properties of the time comparison\<close>

lemma abs_diff_sym: "abs_diff a b = abs_diff b a"
  by (simp add: abs_diff_def abs_minus_commute)

lemma utc_diff_sym:
  "(case utc_diff a b of Inl e \<Rightarrow> Q | Inr d \<Rightarrow> P d)
     = (case utc_diff b a of Inl e \<Rightarrow> Q | Inr d \<Rightarrow> P d)"
  by (auto simp: utc_diff_def bind_result_def abs_diff_sym split: sum.splits)

lemma times_match_None: "times_match self None b = False" "times_match self a None = False"
  by (simp_all add: times_match_def split: option.splits)

lemma times_match_aware:
  "tzinfo t1 = Some o1 \<Longrightarrow> tzinfo t2 = Some o2 \<Longrightarrow>
   times_match self (Some t1) (Some t2) =
     (case utc_diff t1 t2 of
        Inl e \<Rightarrow> str_datetime t1 = str_datetime t2
      | Inr d \<Rightarrow> d \<le> 60 * 1000000)"
  by (simp add: times_match_def)

lemma times_match_naive:
  "tzinfo t1 = None \<Longrightarrow> tzinfo t2 = None \<Longrightarrow>
   times_match self (Some t1) (Some t2) =
     (abs_diff (replace_microsecond_0 t1) (replace_microsecond_0 t2) \<le> 60 * 1000000)"
  by (simp add: times_match_def)

lemma times_match_naive_aware:
  "tzinfo t1 = None \<Longrightarrow> tzinfo t2 = Some o2 \<Longrightarrow>
   times_match self (Some t1) (Some t2) =
     (case pytz_timezone self (timezone (config self)) of
        None \<Rightarrow> str_datetime t1 = str_datetime t2
      | Some local_tz \<Rightarrow>
          (case localize local_tz t1 of
             Inl e \<Rightarrow> str_datetime t1 = str_datetime t2
           | Inr t1' \<Rightarrow>
               (case utc_diff t1' t2 of
                  Inl e \<Rightarrow> str_datetime t1' = str_datetime t2
                | Inr d \<Rightarrow> d \<le> 60 * 1000000)))"
  by (simp add: times_match_def split: option.splits sum.splits)

lemma times_match_aware_naive:
  "tzinfo t1 = Some o1 \<Longrightarrow> tzinfo t2 = None \<Longrightarrow>
   times_match self (Some t1) (Some t2) =
     (case pytz_timezone self (timezone (config self)) of
        None \<Rightarrow> str_datetime t1 = str_datetime t2
      | Some local_tz \<Rightarrow>
          (case localize local_tz t2 of
             Inl e \<Rightarrow> str_datetime t1 = str_datetime t2
           | Inr t2' \<Rightarrow>
               (case utc_diff t1 t2' of
                  Inl e \<Rightarrow> str_datetime t1 = str_datetime t2'
                | Inr d \<Rightarrow> d \<le> 60 * 1000000)))"
  by (simp add: times_match_def split: option.splits sum.splits)

lemma times_match_commute: "times_match self a b = times_match self b a"
proof (cases a)
  case None
  then show ?thesis by (simp add: times_match_None)
next
  case a: (Some t1)
  show ?thesis
  proof (cases b)
    case None
    then show ?thesis by (simp add: times_match_None)
  next
    case b: (Some t2)
    show ?thesis
    proof (cases "tzinfo t1")
      case n1: None
      show ?thesis
      proof (cases "tzinfo t2")
        case None
        with n1 show ?thesis
          unfolding a b by (simp add: times_match_naive abs_diff_sym)
      next
        case (Some o2)
        have "times_match self (Some t2) (Some t1) = times_match self (Some t1) (Some t2)"
          unfolding times_match_naive_aware[OF n1 Some] times_match_aware_naive[OF Some n1]
          by (auto simp: utc_diff_sym[where b=t2] split: option.splits sum.splits)
        then show ?thesis unfolding a b by simp
      qed
    next
      case s1: (Some o1)
      show ?thesis
      proof (cases "tzinfo t2")
        case None
        have "times_match self (Some t1) (Some t2) = times_match self (Some t2) (Some t1)"
          unfolding times_match_naive_aware[OF None s1] times_match_aware_naive[OF s1 None]
          by (auto simp: utc_diff_sym[where b=t1] split: option.splits sum.splits)
        then show ?thesis unfolding a b by simp
      next
        case (Some o2)
        have "times_match self (Some t1) (Some t2) = times_match self (Some t2) (Some t1)"
          unfolding times_match_aware[OF s1 Some] times_match_aware[OF Some s1]
          by (auto simp: utc_diff_sym[where a=t1 and b=t2] split: sum.splits)
        then show ?thesis unfolding a b by simp
      qed
    qed
  qed
qed


section \<open>The counters do not depend on the backends\<close>

lemma times_match_backend [simp]: "times_match (self\<lparr>backend := b\<rparr>) = times_match self"
  by (intro ext) (simp add: times_match_def cong: option.case_cong prod.case_cong)

lemma normalize_time_backend [simp]:
  "normalize_time (self\<lparr>backend := b\<rparr>) = normalize_time self"
  by (intro ext) (simp add: normalize_time_def)

lemma hsd_backend [simp]:
  "has_significant_time_difference (self\<lparr>backend := b\<rparr>)
     = has_significant_time_difference self"
  by (intro ext)
     (simp add: has_significant_time_difference_def cong: option.case_cong prod.case_cong)

lemma hash_backend [simp]:
  "calculate_event_hash (self\<lparr>backend := b\<rparr>) = calculate_event_hash self"
  by (intro ext) (simp add: calculate_event_hash_def)

lemma needs_update_backend [simp]: "needs_update (self\<lparr>backend := b\<rparr>) = needs_update self"
  by (intro ext) (simp add: needs_update_def)

lemma find_rescheduled_loop_backend [simp]:
  "find_rescheduled_loop (self\<lparr>backend := b\<rparr>) s d st en tg
     = find_rescheduled_loop self s d st en tg"
  by (induction tg) (auto simp: Let_def)

lemma find_rescheduled_event_backend [simp]:
  "find_rescheduled_event (self\<lparr>backend := b\<rparr>) = find_rescheduled_event self"
  by (intro ext) (simp add: find_rescheduled_event_def Let_def)

lemma find_similar_loop_backend [simp]:
  "find_similar_loop (self\<lparr>backend := b\<rparr>) s st en tg = find_similar_loop self s st en tg"
  by (induction tg) (auto simp: Let_def)

lemma find_similar_event_backend [simp]:
  "find_similar_event (self\<lparr>backend := b\<rparr>) = find_similar_event self"
  by (intro ext) (simp add: find_similar_event_def Let_def)

lemma target_lookup_loop_backend [simp]:
  "target_lookup_loop (self\<lparr>backend := b\<rparr>) m tg = target_lookup_loop self m tg"
  by (induction tg arbitrary: m) simp_all

lemma sync_source_event_stats:
  "fst (sync_source_event (self\<lparr>backend := b\<rparr>) lk tg dir dry avoid ev (s, w))
     = fst (sync_source_event self lk tg dir' dry' avoid ev (s, w'))"
  by (simp add: sync_source_event_def Let_def split: option.splits)

lemma sync_loop_stats:
  "fst (sync_loop (self\<lparr>backend := b\<rparr>) lk tg dir dry avoid src (s, w))
     = fst (sync_loop self lk tg dir' dry' avoid src (s, w'))"
proof (induction src arbitrary: s w w')
  case Nil
  show ?case by simp
next
  case (Cons ev src)
  obtain s1 w1 where 1:
    "sync_source_event (self\<lparr>backend := b\<rparr>) lk tg dir dry avoid ev (s, w) = (s1, w1)"
    by (cases "sync_source_event (self\<lparr>backend := b\<rparr>) lk tg dir dry avoid ev (s, w)")
  obtain s2 w2 where 2: "sync_source_event self lk tg dir' dry' avoid ev (s, w') = (s2, w2)"
    by (cases "sync_source_event self lk tg dir' dry' avoid ev (s, w')")
  have "s1 = s2"
    using sync_source_event_stats[where self=self and b=b and lk=lk and tg=tg and dir=dir
        and dry=dry and avoid=avoid and ev=ev and s=s and w=w and dir'=dir' and dry'=dry'
        and w'=w'] 1 2
    by simp
  then show ?case using Cons.IH[of s2 w1 w2] 1 2 by simp
qed

lemma sync_events_stats:
  "fst (sync_events (self\<lparr>backend := b\<rparr>) src tg dir dry avoid w)
     = fst (sync_events self src tg dir' dry' avoid w')"
  by (simp add: sync_events_def Let_def sync_loop_stats)

lemma sync_events_stats_dry:
  "fst (sync_events self src tg dir dry avoid w) = fst (sync_events self src tg dir' dry' avoid w')"
  using sync_events_stats[where self=self and b="backend self"] by simp

section \<open>A dry run calls no backend\<close>

lemma sync_source_event_dry_calls:
  "calls (snd (sync_source_event self lk tg dir True avoid ev (s, w))) = calls w"
  by (simp add: sync_source_event_def Let_def emit_def split: option.splits)

lemma sync_loop_dry_calls:
  "calls (snd (sync_loop self lk tg dir True avoid src (s, w))) = calls w"
proof (induction src arbitrary: s w)
  case Nil
  show ?case by simp
next
  case (Cons ev src)
  obtain s1 w1 where 1: "sync_source_event self lk tg dir True avoid ev (s, w) = (s1, w1)"
    by (cases "sync_source_event self lk tg dir True avoid ev (s, w)")
  have "calls w1 = calls w"
    using sync_source_event_dry_calls[of self lk tg dir avoid ev s w] 1 by simp
  then show ?case using Cons.IH[of s1 w1] 1 by simp
qed

section \<open>Every source event is counted once\<close>

lemma sync_source_event_count:
  "(case fst (sync_source_event self lk tg dir dry avoid ev (s, w)) of s' \<Rightarrow>
      created s' + updated s' + skipped s') = created s + updated s + skipped s + 1"
  by (simp add: sync_source_event_def Let_def split: option.splits)

lemma sync_loop_count:
  "created (fst (sync_loop self lk tg dir dry avoid src (s, w)))
    + updated (fst (sync_loop self lk tg dir dry avoid src (s, w)))
    + skipped (fst (sync_loop self lk tg dir dry avoid src (s, w)))
   = created s + updated s + skipped s + length src"
proof (induction src arbitrary: s w)
  case Nil
  show ?case by simp
next
  case (Cons ev src)
  obtain s1 w1 where 1: "sync_source_event self lk tg dir dry avoid ev (s, w) = (s1, w1)"
    by (cases "sync_source_event self lk tg dir dry avoid ev (s, w)")
  have "created s1 + updated s1 + skipped s1 = created s + updated s + skipped s + 1"
    using sync_source_event_count[of self lk tg dir dry avoid ev s w] 1 by simp
  then show ?case using Cons.IH[of s1 w1] 1 by simp
qed

section \<open>The effect of \<^verbatim>\<open>avoid_conflicts\<close>\<close>






section \<open>The time comparison in terms of whole seconds\<close>

lemma trunc_le:
  "(\<bar>a - a mod 1000000 - (b - b mod 1000000)\<bar> \<le> 60000000)
     = (\<bar>whole_seconds a - whole_seconds b\<bar> \<le> (60::int))"
proof -
  have a: "a - a mod 1000000 = 1000000 * (a div 1000000)"
    by (simp add: minus_mod_eq_mult_div)
  have b: "b - b mod 1000000 = 1000000 * (b div 1000000)"
    by (simp add: minus_mod_eq_mult_div)
  show ?thesis unfolding a b whole_seconds_def by linarith
qed

lemma utc_diff_ok:
  "tzinfo t1 = Some o1 \<Longrightarrow> tzinfo t2 = Some o2 \<Longrightarrow>
   representable (wall t1 - o1) \<Longrightarrow> representable (wall t2 - o2) \<Longrightarrow>
   utc_diff t1 t2 = Inr \<bar>((wall t1 - o1) - (wall t1 - o1) mod 1000000)
                          - ((wall t2 - o2) - (wall t2 - o2) mod 1000000)\<bar>"
  by (simp add: utc_diff_def bind_result_def astimezone_utc_def representable_def Let_def
      abs_diff_def replace_microsecond_0_def)

lemma utc_diff_fail:
  "tzinfo t1 = Some o1 \<Longrightarrow> tzinfo t2 = Some o2 \<Longrightarrow>
   \<not> (representable (wall t1 - o1) \<and> representable (wall t2 - o2)) \<Longrightarrow>
   utc_diff t1 t2 = Inl OverflowError"
  by (auto simp: utc_diff_def bind_result_def astimezone_utc_def representable_def Let_def)

lemma times_match_aware_ok:
  "tzinfo t1 = Some o1 \<Longrightarrow> tzinfo t2 = Some o2 \<Longrightarrow>
   representable (wall t1 - o1) \<Longrightarrow> representable (wall t2 - o2) \<Longrightarrow>
   times_match self (Some t1) (Some t2)
     = (\<bar>whole_seconds (wall t1 - o1) - whole_seconds (wall t2 - o2)\<bar> \<le> 60)"
  by (simp add: times_match_aware utc_diff_ok trunc_le)

lemma times_match_aware_fail:
  "tzinfo t1 = Some o1 \<Longrightarrow> tzinfo t2 = Some o2 \<Longrightarrow>
   \<not> (representable (wall t1 - o1) \<and> representable (wall t2 - o2)) \<Longrightarrow>
   times_match self (Some t1) (Some t2) = (str_datetime t1 = str_datetime t2)"
  by (simp add: times_match_aware utc_diff_fail)

lemma times_match_naive_ok:
  "tzinfo t1 = None \<Longrightarrow> tzinfo t2 = None \<Longrightarrow>
   times_match self (Some t1) (Some t2)
     = (\<bar>whole_seconds (wall t1) - whole_seconds (wall t2)\<bar> \<le> 60)"
  by (simp add: times_match_naive abs_diff_def replace_microsecond_0_def trunc_le)

lemma localize_naive:
  "tzinfo t = None \<Longrightarrow> localize z t = (case z (wall t) of None \<Rightarrow> Inl OverflowError
      | Some off \<Rightarrow> Inr (t\<lparr>tzinfo := Some off\<rparr>))"
  by (simp add: localize_def)

lemma times_match_naive_aware_ok:
  "tzinfo t1 = None \<Longrightarrow> tzinfo t2 = Some o2 \<Longrightarrow>
   pytz_timezone self (timezone (config self)) = Some z \<Longrightarrow> z (wall t1) = Some o1 \<Longrightarrow>
   representable (wall t1 - o1) \<Longrightarrow> representable (wall t2 - o2) \<Longrightarrow>
   times_match self (Some t1) (Some t2)
     = (\<bar>whole_seconds (wall t1 - o1) - whole_seconds (wall t2 - o2)\<bar> \<le> 60)"
  using utc_diff_ok[of "t1\<lparr>tzinfo := Some o1\<rparr>" o1 t2 o2]
  by (simp add: times_match_naive_aware localize_naive trunc_le)

lemma times_match_naive_aware_fail:
  "tzinfo t1 = None \<Longrightarrow> tzinfo t2 = Some o2 \<Longrightarrow>
   pytz_timezone self (timezone (config self)) = Some z \<Longrightarrow> z (wall t1) = Some o1 \<Longrightarrow>
   \<not> (representable (wall t1 - o1) \<and> representable (wall t2 - o2)) \<Longrightarrow>
   times_match self (Some t1) (Some t2)
     = (str_datetime (t1\<lparr>tzinfo := Some o1\<rparr>) = str_datetime t2)"
  using utc_diff_fail[of "t1\<lparr>tzinfo := Some o1\<rparr>" o1 t2 o2]
  by (simp add: times_match_naive_aware localize_naive)

lemma times_match_naive_aware_nozone:
  "tzinfo t1 = None \<Longrightarrow> tzinfo t2 = Some o2 \<Longrightarrow>
   (pytz_timezone self (timezone (config self)) = None
      \<or> (\<exists>z. pytz_timezone self (timezone (config self)) = Some z \<and> z (wall t1) = None)) \<Longrightarrow>
   times_match self (Some t1) (Some t2) = (str_datetime t1 = str_datetime t2)"
  by (auto simp: times_match_naive_aware localize_naive)

lemma length_zfill [simp]: "length (zfill k n) = k"
  by (simp add: zfill_def)

lemma length_format_offset:
  "length (format_offset off) = 6 \<or> length (format_offset off) = 9
     \<or> length (format_offset off) = 16"
  by (simp add: format_offset_def Let_def)

lemma length_str_datetime:
  "length (str_datetime t) =
     19 + (if wall t mod 86400000000 mod 1000000 \<noteq> 0 then 7 else 0)
        + (case tzinfo t of None \<Rightarrow> 0 | Some off \<Rightarrow> length (format_offset off))"
  by (simp add: str_datetime_def Let_def split: prod.splits option.splits)

lemma str_naive_aware:
  assumes "tzinfo a = None" "tzinfo b = Some off"
  shows "str_datetime a \<noteq> str_datetime b"
proof
  assume "str_datetime a = str_datetime b"
  then have "length (str_datetime a) = length (str_datetime b)" by simp
  then show False
    using assms length_format_offset[of off]
    unfolding length_str_datetime by (simp split: if_splits)
qed

lemma times_match_naive_aware_nozone_False:
  "tzinfo t1 = None \<Longrightarrow> tzinfo t2 = Some o2 \<Longrightarrow>
   (pytz_timezone self (timezone (config self)) = None
      \<or> (\<exists>z. pytz_timezone self (timezone (config self)) = Some z \<and> z (wall t1) = None)) \<Longrightarrow>
   times_match self (Some t1) (Some t2) = False"
  using times_match_naive_aware_nozone[of t1 t2 o2 self] str_naive_aware[of t1 t2 o2]
  by simp

lemma wall_first_day_east:
  "wall first_day_east = 0" "tzinfo first_day_east = Some 18000000000"
  by (simp_all add: first_day_east_def datetime_new_def ymd2ord_def days_before_year_def
      days_before_month_def is_leap_def)

section \<open>The comparisons in terms of instants\<close>






lemma times_match_refl: "times_match self (Some t) (Some t)"
proof (cases "tzinfo t")
  case None
  then show ?thesis by (simp add: times_match_naive abs_diff_def)
next
  case (Some off)
  then show ?thesis
    by (simp add: times_match_aware utc_diff_def bind_result_def abs_diff_def split: sum.splits)
qed


lemma whole_seconds_shift:
  "whole_seconds (y + k * 1000000) = whole_seconds y + k"
  unfolding whole_seconds_def by simp

section \<open>The lookup of target events and the tiers\<close>

lemma target_lookup_loop_in:
  "target_lookup_loop self m tg h = Some t \<Longrightarrow>
   m h = Some t \<or> (t \<in> set tg \<and> calculate_event_hash self t = h)"
proof (induction tg arbitrary: m)
  case Nil
  then show ?case by simp
next
  case (Cons e tg)
  from Cons.prems have
    "target_lookup_loop self (m(calculate_event_hash self e \<mapsto> e)) tg h = Some t"
    by (simp add: Let_def)
  from Cons.IH[OF this] show ?case
    by (auto split: if_splits)
qed

lemma target_lookup_loop_some:
  "m h \<noteq> None \<or> (\<exists>t\<in>set tg. calculate_event_hash self t = h) \<Longrightarrow>
   target_lookup_loop self m tg h \<noteq> None"
proof (induction tg arbitrary: m)
  case Nil
  then show ?case by simp
next
  case (Cons e tg)
  have step: "(m(calculate_event_hash self e \<mapsto> e)) h \<noteq> None
          \<or> (\<exists>t\<in>set tg. calculate_event_hash self t = h)"
    using Cons.prems by auto
  show ?case
    unfolding target_lookup_loop.simps Let_def
    by (rule Cons.IH[of "m(calculate_event_hash self e \<mapsto> e)", OF step])
qed

lemma target_lookup_none:
  "(target_lookup_loop self Map.empty tg h = None)
     = (\<forall>t\<in>set tg. calculate_event_hash self t \<noteq> h)"
proof
  assume n: "target_lookup_loop self Map.empty tg h = None"
  show "\<forall>t\<in>set tg. calculate_event_hash self t \<noteq> h"
  proof (rule ccontr)
    assume "\<not> (\<forall>t\<in>set tg. calculate_event_hash self t \<noteq> h)"
    then have "Map.empty h \<noteq> None \<or> (\<exists>t\<in>set tg. calculate_event_hash self t = h)" by blast
    from target_lookup_loop_some[of Map.empty, OF this] n show False by simp
  qed
next
  assume a: "\<forall>t\<in>set tg. calculate_event_hash self t \<noteq> h"
  show "target_lookup_loop self Map.empty tg h = None"
  proof (cases "target_lookup_loop self Map.empty tg h")
    case None
    then show ?thesis .
  next
    case (Some t)
    from target_lookup_loop_in[OF Some] a show ?thesis by auto
  qed
qed

lemma target_lookup_hit:
  "t \<in> set tg \<Longrightarrow> calculate_event_hash self t = h \<Longrightarrow>
   \<exists>t'\<in>set tg. target_lookup_loop self Map.empty tg h = Some t' \<and> calculate_event_hash self t' = h"
proof -
  assume t: "t \<in> set tg" "calculate_event_hash self t = h"
  then have "Map.empty h \<noteq> None \<or> (\<exists>t\<in>set tg. calculate_event_hash self t = h)" by blast
  from target_lookup_loop_some[of Map.empty, OF this] obtain t' where
    s: "target_lookup_loop self Map.empty tg h = Some t'" by blast
  from target_lookup_loop_in[OF s] show ?thesis using s by auto
qed

lemma find_rescheduled_absent:
  "start ev = None \<or> end_time ev = None \<Longrightarrow> find_rescheduled_event self ev tg = None"
  by (auto simp: find_rescheduled_event_def Let_def)

lemma find_similar_absent:
  "start ev = None \<or> end_time ev = None \<Longrightarrow> find_similar_event self ev tg = None"
  by (auto simp: find_similar_event_def Let_def)

lemma needs_update_absent:
  "start ev = None \<or> end_time ev = None \<Longrightarrow> needs_update self ev t"
  by (auto simp: needs_update_def Let_def times_match_None)

lemma sync_events_single:
  "sync_events self [ev] tg dir dry avoid w =
     sync_source_event self (target_lookup_loop self Map.empty tg) tg dir dry avoid ev
       (\<lparr>created = 0, updated = 0, skipped = 0\<rparr>, w)"
  by (simp add: sync_events_def Let_def)

lemma hash_fields:
  "summary t = summary e \<Longrightarrow> start t = start e \<Longrightarrow> end_time t = end_time e \<Longrightarrow>
   calculate_event_hash self t = calculate_event_hash self e"
  by (simp add: calculate_event_hash_def)

lemma needs_update_same:
  assumes "normalize_text (summary t) = normalize_text (summary e)"
    "normalize_text (description t) = normalize_text (description e)"
    "start t = start e" "end_time t = end_time e"
    "start e \<noteq> None" "end_time e \<noteq> None"
  shows "\<not> needs_update self e t"
proof -
  from assms(5) obtain a where a: "start e = Some a" by blast
  from assms(6) obtain b where b: "end_time e = Some b" by blast
  show ?thesis
    using assms(1-4) a b
    by (simp add: needs_update_def Let_def times_match_refl)
qed

lemma normalize_bring_notes: "normalize_text ''Bring notes'' = ''bring notes''"
  by code_simp

section \<open>Mixed pairs with the aware value first\<close>

lemma times_match_aware_naive_ok:
  "tzinfo t1 = Some o1 \<Longrightarrow> tzinfo n2 = None \<Longrightarrow>
   pytz_timezone self (timezone (config self)) = Some z \<Longrightarrow> z (wall n2) = Some off \<Longrightarrow>
   representable (wall t1 - o1) \<Longrightarrow> representable (wall n2 - off) \<Longrightarrow>
   times_match self (Some t1) (Some n2)
     = (\<bar>whole_seconds (wall t1 - o1) - whole_seconds (wall n2 - off)\<bar> \<le> 60)"
  using times_match_naive_aware_ok[of n2 t1 o1 self z off]
    times_match_commute[of self "Some t1" "Some n2"]
  by (simp add: abs_minus_commute)

lemma times_match_aware_naive_fail:
  "tzinfo t1 = Some o1 \<Longrightarrow> tzinfo n2 = None \<Longrightarrow>
   pytz_timezone self (timezone (config self)) = Some z \<Longrightarrow> z (wall n2) = Some off \<Longrightarrow>
   \<not> (representable (wall t1 - o1) \<and> representable (wall n2 - off)) \<Longrightarrow>
   times_match self (Some t1) (Some n2)
     = (str_datetime t1 = str_datetime (n2\<lparr>tzinfo := Some off\<rparr>))"
  using times_match_naive_aware_fail[of n2 t1 o1 self z off]
    times_match_commute[of self "Some t1" "Some n2"]
  by (auto simp: eq_commute)

lemma times_match_aware_naive_nozone_False:
  "tzinfo t1 = Some o1 \<Longrightarrow> tzinfo n2 = None \<Longrightarrow>
   (pytz_timezone self (timezone (config self)) = None
      \<or> (\<exists>z. pytz_timezone self (timezone (config self)) = Some z \<and> z (wall n2) = None)) \<Longrightarrow>
   times_match self (Some t1) (Some n2) = False"
  using times_match_naive_aware_nozone_False[of n2 t1 o1 self]
    times_match_commute[of self "Some t1" "Some n2"]
  by simp

section \<open>The last target event with a fingerprint\<close>

lemma target_lookup_loop_append:
  "target_lookup_loop self m (xs @ ys) = target_lookup_loop self (target_lookup_loop self m xs) ys"
  by (induction xs arbitrary: m) (simp_all add: Let_def)

lemma target_lookup_loop_untouched:
  "\<forall>t\<in>set tg. calculate_event_hash self t \<noteq> h \<Longrightarrow> target_lookup_loop self m tg h = m h"
proof (induction tg arbitrary: m)
  case Nil
  show ?case by simp
next
  case (Cons e tg)
  have "target_lookup_loop self (m(calculate_event_hash self e \<mapsto> e)) tg h
          = (m(calculate_event_hash self e \<mapsto> e)) h"
    using Cons.prems by (intro Cons.IH) simp
  then show ?case using Cons.prems by (auto simp: Let_def)
qed

lemma target_lookup_last:
  assumes "calculate_event_hash self t = h"
    and "\<forall>t'\<in>set after. calculate_event_hash self t' \<noteq> h"
  shows "target_lookup_loop self m (before @ t # after) h = Some t"
  using target_lookup_loop_untouched[OF assms(2),
      of "(target_lookup_loop self m before)(calculate_event_hash self t \<mapsto> t)"] assms(1)
  by (simp add: target_lookup_loop_append Let_def)

lemma up_to_date_event_last:
  assumes H1: "start e \<noteq> None \<and> end_time e \<noteq> None"
    and H2: "\<exists>before t after. tg = before @ t # after
               \<and> summary t = summary e \<and> description t = description e
               \<and> start t = start e \<and> end_time t = end_time e
               \<and> (\<forall>t'\<in>set after. calculate_event_hash self t' \<noteq> calculate_event_hash self e)"
  shows "sync_source_event self (target_lookup_loop self Map.empty tg) tg dir dry avoid e (s, w)
           = (s\<lparr>skipped := skipped s + 1\<rparr>, emit (SkippingUpToDate dry (summary e)) w)"
proof -
  from H2 obtain before t after where t: "tg = before @ t # after" "summary t = summary e"
    "description t = description e" "start t = start e" "end_time t = end_time e"
    "\<forall>t'\<in>set after. calculate_event_hash self t' \<noteq> calculate_event_hash self e" by blast
  have ht: "calculate_event_hash self t = calculate_event_hash self e"
    by (rule hash_fields) (fact t)+
  have lk: "target_lookup_loop self Map.empty tg (calculate_event_hash self e) = Some t"
    unfolding t(1) by (rule target_lookup_last[OF ht t(6)])
  have nu: "\<not> needs_update self e t"
    by (rule needs_update_same) (simp_all add: t H1)
  show ?thesis
    unfolding sync_source_event_def Let_def
    by (simp only: lk nu option.case prod.case if_False)
qed

lemma up_to_date_loop_last:
  assumes H1: "\<forall>e\<in>set src. start e \<noteq> None \<and> end_time e \<noteq> None"
    and H2: "\<forall>e\<in>set src. \<exists>before t after. tg = before @ t # after
               \<and> summary t = summary e \<and> description t = description e
               \<and> start t = start e \<and> end_time t = end_time e
               \<and> (\<forall>t'\<in>set after. calculate_event_hash self t' \<noteq> calculate_event_hash self e)"
  shows "sync_loop self (target_lookup_loop self Map.empty tg) tg dir dry avoid src (s, w)
           = (s\<lparr>skipped := skipped s + length src\<rparr>,
              w\<lparr>printed := printed w @ map (\<lambda>e. SkippingUpToDate dry (summary e)) src\<rparr>)"
  using H1 H2
proof (induction src arbitrary: s w)
  case Nil
  show ?case by simp
next
  case (Cons e src)
  have e1: "start e \<noteq> None \<and> end_time e \<noteq> None"
    using Cons.prems(1) by simp
  have e2: "\<exists>before t after. tg = before @ t # after
               \<and> summary t = summary e \<and> description t = description e
               \<and> start t = start e \<and> end_time t = end_time e
               \<and> (\<forall>t'\<in>set after. calculate_event_hash self t' \<noteq> calculate_event_hash self e)"
    using Cons.prems(2) by simp
  have e: "sync_source_event self (target_lookup_loop self Map.empty tg) tg dir dry avoid e (s, w)
           = (s\<lparr>skipped := skipped s + 1\<rparr>, emit (SkippingUpToDate dry (summary e)) w)"
    by (rule up_to_date_event_last[OF e1 e2])
  have r1: "\<forall>e\<in>set src. start e \<noteq> None \<and> end_time e \<noteq> None"
    using Cons.prems(1) by simp
  have r2: "\<forall>e\<in>set src. \<exists>before t after. tg = before @ t # after
               \<and> summary t = summary e \<and> description t = description e
               \<and> start t = start e \<and> end_time t = end_time e
               \<and> (\<forall>t'\<in>set after. calculate_event_hash self t' \<noteq> calculate_event_hash self e)"
    using Cons.prems(2) by simp
  show ?case
    by (simp add: e Cons.IH[OF r1 r2] emit_def)
qed

section \<open>Passes of reschedules only, and passes without them\<close>









section \<open>The reschedule example, evaluated\<close>




section \<open>Failures of backend calls are printed and change nothing else\<close>

lemma convert_to_google_format_backend [simp]:
  "convert_to_google_format (self\<lparr>backend := b\<rparr>) = convert_to_google_format self"
  by (intro ext) (simp add: convert_to_google_format_def split: option.splits)

lemma backend_errors_append:
  "backend_errors (xs @ ys) = backend_errors xs @ backend_errors ys"
  by (induction xs rule: backend_errors.induct) simp_all

lemma failed_calls_append:
  "failed_calls b made (xs @ ys) = failed_calls b made xs @ failed_calls b (made @ xs) ys"
  by (induction xs arbitrary: made) simp_all

lemma logged_failures_refl: "logged_failures b w w"
  by (simp add: logged_failures_def)

lemma logged_failures_trans:
  assumes "logged_failures b w w'" "logged_failures b w' w''"
  shows "logged_failures b w w''"
proof -
  from assms(1) obtain cs ps where 1: "calls w' = calls w @ cs" "printed w' = printed w @ ps"
    "backend_errors ps = failed_calls b (calls w) cs"
    unfolding logged_failures_def by blast
  from assms(2) obtain cs' ps' where 2: "calls w'' = calls w' @ cs'"
    "printed w'' = printed w' @ ps'"
    "backend_errors ps' = failed_calls b (calls w') cs'"
    unfolding logged_failures_def by blast
  have "calls w'' = calls w @ (cs @ cs')" "printed w'' = printed w @ (ps @ ps')"
    "backend_errors (ps @ ps') = failed_calls b (calls w) (cs @ cs')"
    using 1 2 by (simp_all add: backend_errors_append failed_calls_append)
  then show ?thesis
    unfolding logged_failures_def by blast
qed

lemma logged_failures_emit:
  "\<not> is_backend_error l \<Longrightarrow> logged_failures b w (emit l w)"
  unfolding logged_failures_def emit_def
  by (rule exI[of _ "[]"], rule exI[of _ "[l]"])
     (cases l rule: is_backend_error.cases; simp)

lemma localize_error:
  "localize z t = Inl a \<Longrightarrow> a = ValueError \<or> a = OverflowError"
  by (auto simp: localize_def split: if_splits option.splits)

lemma convert_to_google_format_error:
  assumes "convert_to_google_format self e = Inl a"
  shows "a = AttributeError \<or> a = UnknownTimeZoneError \<or> a = ValueError \<or> a = OverflowError"
  using assms
  by (auto simp: convert_to_google_format_def bind_result_def
      split: if_splits option.splits sum.splits dest: localize_error)

lemma conversion_error_not_backend:
  "convert_to_google_format self e = Inl a \<Longrightarrow>
   backend_errors [ErrorCreating s a] = [] \<and> backend_errors [ErrorUpdating s a] = []
   \<and> \<not> is_backend_error (ErrorCreating s a) \<and> \<not> is_backend_error (ErrorUpdating s a)"
  using convert_to_google_format_error[of self e a] by auto

lemma logged_failures_create:
  "logged_failures (backend self) w (create_event_in_target self e dir w)"
  unfolding logged_failures_def create_event_in_target_def call_backend_def Let_def
  by (cases "convert_to_google_format self e")
     (auto split: option.splits dest: conversion_error_not_backend)

lemma logged_failures_update:
  "logged_failures (backend self) w (update_event_in_target self e t dir w)"
  unfolding logged_failures_def update_event_in_target_def call_backend_def Let_def
  by (cases "convert_to_google_format self e")
     (auto split: option.splits dest: conversion_error_not_backend)

lemma other_lines_append [simp]: "other_lines (xs @ ys) = other_lines xs @ other_lines ys"
  by (simp add: other_lines_def)

lemma same_create:
  assumes "calls w1 = calls w2" "other_lines (printed w1) = other_lines (printed w2)"
  shows "calls (create_event_in_target (self\<lparr>backend := b\<rparr>) e dir w1)
           = calls (create_event_in_target self e dir w2)
       \<and> other_lines (printed (create_event_in_target (self\<lparr>backend := b\<rparr>) e dir w1))
           = other_lines (printed (create_event_in_target self e dir w2))"
  using assms
  unfolding create_event_in_target_def call_backend_def Let_def
  by (cases "convert_to_google_format self e")
     (auto simp: other_lines_def split: option.splits dest: conversion_error_not_backend)

lemma same_update:
  assumes "calls w1 = calls w2" "other_lines (printed w1) = other_lines (printed w2)"
  shows "calls (update_event_in_target (self\<lparr>backend := b\<rparr>) e t dir w1)
           = calls (update_event_in_target self e t dir w2)
       \<and> other_lines (printed (update_event_in_target (self\<lparr>backend := b\<rparr>) e t dir w1))
           = other_lines (printed (update_event_in_target self e t dir w2))"
  using assms
  unfolding update_event_in_target_def call_backend_def Let_def
  by (cases "convert_to_google_format self e")
     (auto simp: other_lines_def split: option.splits dest: conversion_error_not_backend)

lemma same_emit:
  assumes "calls w1 = calls w2" "other_lines (printed w1) = other_lines (printed w2)"
  shows "calls (emit l w1) = calls (emit l w2)
       \<and> other_lines (printed (emit l w1)) = other_lines (printed (emit l w2))"
  using assms by (simp add: emit_def other_lines_def)

lemma same_event:
  assumes "calls w1 = calls w2" "other_lines (printed w1) = other_lines (printed w2)"
  shows "calls (snd (sync_source_event (self\<lparr>backend := b\<rparr>) lk tg dir dry avoid e (s1, w1)))
           = calls (snd (sync_source_event self lk tg dir dry avoid e (s2, w2)))
       \<and> other_lines (printed (snd (sync_source_event (self\<lparr>backend := b\<rparr>) lk tg dir dry
                                        avoid e (s1, w1))))
           = other_lines (printed (snd (sync_source_event self lk tg dir dry avoid e (s2, w2))))"
  using assms same_create[OF assms, where self=self and b=b and e=e and dir=dir]
    same_update[OF assms, where self=self and b=b and e=e and dir=dir]
  by (simp add: sync_source_event_def Let_def emit_def split: option.splits)

lemma logged_failures_event:
  "logged_failures (backend self) w
     (snd (sync_source_event self lk tg dir dry avoid e (s, w)))"
proof -
  have n: "logged_failures (backend self) w (emit l w)" if "\<not> is_backend_error l" for l
    by (rule logged_failures_emit[OF that])
  have u: "logged_failures (backend self) w (emit l (update_event_in_target self e t dir w))"
    if "\<not> is_backend_error l" for l t
    by (rule logged_failures_trans[OF logged_failures_update logged_failures_emit[OF that]])
  have c: "logged_failures (backend self) w (emit l (create_event_in_target self e dir w))"
    if "\<not> is_backend_error l" for l
    by (rule logged_failures_trans[OF logged_failures_create logged_failures_emit[OF that]])
  show ?thesis
    by (auto simp: sync_source_event_def Let_def split: option.splits intro!: n u c)
qed

lemma same_loop:
  assumes "calls w1 = calls w2" "other_lines (printed w1) = other_lines (printed w2)"
  shows "calls (snd (sync_loop (self\<lparr>backend := b\<rparr>) lk tg dir dry avoid src (s1, w1)))
           = calls (snd (sync_loop self lk tg dir dry avoid src (s2, w2)))
       \<and> other_lines (printed (snd (sync_loop (self\<lparr>backend := b\<rparr>) lk tg dir dry avoid src
                                        (s1, w1))))
           = other_lines (printed (snd (sync_loop self lk tg dir dry avoid src (s2, w2))))"
  using assms
proof (induction src arbitrary: s1 w1 s2 w2)
  case Nil
  then show ?case by simp
next
  case (Cons e src)
  obtain s1' w1' where 1:
    "sync_source_event (self\<lparr>backend := b\<rparr>) lk tg dir dry avoid e (s1, w1) = (s1', w1')"
    by (cases "sync_source_event (self\<lparr>backend := b\<rparr>) lk tg dir dry avoid e (s1, w1)")
  obtain s2' w2' where 2: "sync_source_event self lk tg dir dry avoid e (s2, w2) = (s2', w2')"
    by (cases "sync_source_event self lk tg dir dry avoid e (s2, w2)")
  have "calls w1' = calls w2'" "other_lines (printed w1') = other_lines (printed w2')"
    using same_event[OF Cons.prems, where self=self and b=b and lk=lk and tg=tg and dir=dir
        and dry=dry and avoid=avoid and e=e and ?s1.0=s1 and ?s2.0=s2] 1 2
    by simp_all
  from Cons.IH[OF this, of s1' s2'] show ?case
    by (simp add: 1 2)
qed

lemma same_sync_events:
  "calls (snd (sync_events (self\<lparr>backend := b\<rparr>) src tg dir dry avoid w))
     = calls (snd (sync_events self src tg dir dry avoid w))
   \<and> other_lines (printed (snd (sync_events (self\<lparr>backend := b\<rparr>) src tg dir dry avoid w)))
     = other_lines (printed (snd (sync_events self src tg dir dry avoid w)))"
  unfolding sync_events_def Let_def
  using same_loop[where ?w1.0=w and ?w2.0=w and self=self and b=b
      and lk="target_lookup_loop self Map.empty tg" and tg=tg and dir=dir and dry=dry
      and avoid=avoid and src=src
      and ?s1.0="\<lparr>created = 0, updated = 0, skipped = 0\<rparr>"
      and ?s2.0="\<lparr>created = 0, updated = 0, skipped = 0\<rparr>"]
  by simp

lemma logged_failures_loop:
  "logged_failures (backend self) w (snd (sync_loop self lk tg dir dry avoid src (s, w)))"
proof (induction src arbitrary: s w)
  case Nil
  show ?case by (simp add: logged_failures_refl)
next
  case (Cons e src)
  obtain s' w' where 1: "sync_source_event self lk tg dir dry avoid e (s, w) = (s', w')"
    by (cases "sync_source_event self lk tg dir dry avoid e (s, w)")
  have a: "logged_failures (backend self) w w'"
    using logged_failures_event[where self=self and w=w and lk=lk and tg=tg and dir=dir
        and dry=dry and avoid=avoid and e=e and s=s] 1 by simp
  show ?case
    using logged_failures_trans[OF a Cons.IH[where s=s' and w=w']] by (simp add: 1)
qed

lemma logged_failures_sync_events:
  "logged_failures (backend self) w (snd (sync_events self src tg dir dry avoid w))"
  unfolding sync_events_def Let_def by (rule logged_failures_loop)

lemma failing_pass:
  "sync_events failing_engine [standup, retro] [standup_with_notes] ''icloud_to_google''
     False False empty_world
   = (\<lparr>created = 1, updated = 1, skipped = 0\<rparr>,
      \<lparr>calls =
         [GoogleUpdateEvent ''g2''
            \<lparr>g_summary = ''Standup'', g_description = [], g_location = [],
             g_start = GDateTime (datetime_new 2024 1 1 9 0 0 0 (Some 0)),
             g_end = GDateTime (datetime_new 2024 1 1 9 30 0 0 (Some 0))\<rparr>,
          GoogleCreateEvent
            \<lparr>g_summary = ''Retro'', g_description = [], g_location = ''Room 2'',
             g_start = GDateTime (datetime_new 2024 1 2 15 0 0 0 (Some 0)),
             g_end = GDateTime (datetime_new 2024 1 2 16 0 0 0 (Some 0))\<rparr>],
        printed =
         [ErrorUpdating ''Standup'' (BackendError ''timed out''), Updating False ''Standup'',
          ErrorCreating ''Retro'' (BackendError ''timed out''), Creating False ''Retro'']\<rparr>)"
  by code_simp









lemma py_replace_two_Nil: "py_replace [p, q] new [] = []"
  by simp

lemma py_replace_two_match: "py_replace [p, q] new (p # q # s) = new @ py_replace [p, q] new s"
  by simp

lemma py_replace_two_other: "c \<noteq> p \<Longrightarrow> py_replace [p, q] new (c # s) = c # py_replace [p, q] new s"
  by simp

lemma py_replace_two_first:
  "s = [] \<or> hd s \<noteq> q \<Longrightarrow> py_replace [p, q] new (p # s) = p # py_replace [p, q] new s"
  by (cases s) auto

lemma py_replace_two_cases:
  "py_replace [p, q] new (c # s)
     = (if c = p \<and> s \<noteq> [] \<and> hd s = q then new @ py_replace [p, q] new (tl s)
        else c # py_replace [p, q] new s)"
  by (cases s) auto

lemma py_replace_append_hd:
  "y = [] \<or> hd y \<noteq> q \<Longrightarrow>
   py_replace [p, q] new (x @ y) = py_replace [p, q] new x @ py_replace [p, q] new y"
proof (induction x rule: length_induct)
  case (1 x)
  show ?case
  proof (cases x)
    case Nil
    then show ?thesis by simp
  next
    case (Cons c s)
    show ?thesis
    proof (cases "c = p \<and> s \<noteq> [] \<and> hd s = q")
      case True
      then obtain s' where s: "s = q # s'" by (cases s) auto
      have "py_replace [p, q] new (s' @ y) = py_replace [p, q] new s' @ py_replace [p, q] new y"
        using 1 Cons s by simp
      then show ?thesis using True Cons s by simp
    next
      case False
      have IH: "py_replace [p, q] new (s @ y) = py_replace [p, q] new s @ py_replace [p, q] new y"
        using 1 Cons by simp
      show ?thesis
      proof (cases s)
        case Nil
        then show ?thesis using Cons 1(2) by (cases y) auto
      next
        case (Cons d s')
        then show ?thesis using False IH \<open>x = c # s\<close> by auto
      qed
    qed
  qed
qed

lemma py_replace_append_last:
  "x = [] \<or> last x \<noteq> p \<Longrightarrow>
   py_replace [p, q] new (x @ y) = py_replace [p, q] new x @ py_replace [p, q] new y"
proof (induction x rule: length_induct)
  case (1 x)
  show ?case
  proof (cases x)
    case Nil
    then show ?thesis by simp
  next
    case (Cons c s)
    show ?thesis
    proof (cases "c = p \<and> s \<noteq> [] \<and> hd s = q")
      case True
      then obtain s' where s: "s = q # s'" by (cases s) auto
      have "s' = [] \<or> last s' \<noteq> p" using 1(2) Cons s by (cases s') auto
      then have "py_replace [p, q] new (s' @ y)
                   = py_replace [p, q] new s' @ py_replace [p, q] new y"
        using 1(1) Cons s by (cases "s' = []") auto
      then show ?thesis using True Cons s by simp
    next
      case False
      show ?thesis
      proof (cases s)
        case Nil
        then show ?thesis using \<open>x = c # s\<close> 1(2) by (cases y) auto
      next
        case (Cons d s')
        have "s = [] \<or> last s \<noteq> p" using 1(2) \<open>x = c # s\<close> Cons by auto
        then have IH: "py_replace [p, q] new (s @ y)
                         = py_replace [p, q] new s @ py_replace [p, q] new y"
          using 1(1) \<open>x = c # s\<close> by (cases "s = []") auto
        then show ?thesis using False Cons \<open>x = c # s\<close> by auto
      qed
    qed
  qed
qed

lemma py_replace_absent: "p \<notin> set x \<Longrightarrow> py_replace [p, q] new x = x"
  by (induction x) auto

lemma py_replace_prefix_absent:
  "p \<notin> set x \<Longrightarrow> py_replace [p, q] new (x @ y) = x @ py_replace [p, q] new y"
  by (induction x) auto

lemma py_replace_last:
  "x = [] \<or> last x \<noteq> b \<Longrightarrow> new \<noteq> [] \<Longrightarrow> last new \<noteq> b \<Longrightarrow>
   py_replace [p, q] new x = [] \<or> last (py_replace [p, q] new x) \<noteq> b"
proof (induction x rule: length_induct)
  case (1 x)
  show ?case
  proof (cases x)
    case Nil
    then show ?thesis by simp
  next
    case (Cons c s)
    show ?thesis
    proof (cases "c = p \<and> s \<noteq> [] \<and> hd s = q")
      case True
      then obtain s' where s: "s = q # s'" by (cases s) auto
      have "s' = [] \<or> last s' \<noteq> b" using 1(2) Cons s by (cases s') auto
      then have "py_replace [p, q] new s' = [] \<or> last (py_replace [p, q] new s') \<noteq> b"
        using 1 Cons s by (cases "s' = []") auto
      then show ?thesis using True Cons s 1(3,4) by (auto simp: last_append)
    next
      case False
      show ?thesis
      proof (cases s)
        case Nil
        then show ?thesis using \<open>x = c # s\<close> 1(2) by auto
      next
        case (Cons d s')
        have "s = [] \<or> last s \<noteq> b" using 1(2) \<open>x = c # s\<close> Cons by auto
        then have IH: "py_replace [p, q] new s = [] \<or> last (py_replace [p, q] new s) \<noteq> b"
          using 1 \<open>x = c # s\<close> by (cases "s = []") auto
        have "py_replace [p, q] new s \<noteq> []" using Cons 1(3) by auto
        then show ?thesis using False IH Cons \<open>x = c # s\<close> by auto
      qed
    qed
  qed
qed

lemma py_replace_hd:
  "y = [] \<or> hd y \<noteq> p \<Longrightarrow>
   (py_replace [p, q] new y = [] \<and> y = [])
   \<or> (py_replace [p, q] new y \<noteq> [] \<and> y \<noteq> [] \<and> hd (py_replace [p, q] new y) = hd y)"
  by (cases y) auto

lemma isspace_chars:
  "\<not> isspace backslash" "\<not> isspace CHR '',''" "\<not> isspace CHR '';''" "\<not> isspace CHR ''n''"
  "isspace newline" "isspace CHR '' ''"
  by (simp_all add: isspace_def backslash_def newline_def)

lemma chars_distinct:
  "backslash \<noteq> CHR '',''" "backslash \<noteq> CHR '';''" "backslash \<noteq> CHR ''n''"
  "backslash \<noteq> newline" "CHR '','' \<noteq> backslash" "CHR '';'' \<noteq> backslash"
  "CHR ''n'' \<noteq> backslash" "newline \<noteq> backslash"
  "newline \<noteq> CHR '',''" "newline \<noteq> CHR '';''" "newline \<noteq> CHR ''n''"
  by (simp_all add: backslash_def newline_def)

lemma split_from_spaces:
  "\<forall>c\<in>set ws. isspace c \<Longrightarrow> split_from w (ws @ s)
     = (if ws = [] then split_from w s
        else (if w = [] then [] else [w]) @ split_from [] s)"
proof (induction ws arbitrary: w)
  case Nil
  show ?case by simp
next
  case (Cons c ws)
  then show ?case by (cases "ws = []") auto
qed

lemma split_from_gap:
  "ws \<noteq> [] \<Longrightarrow> \<forall>c\<in>set ws. isspace c \<Longrightarrow>
   split_from w (a @ ws @ b) = split_from w a @ split_from [] b"
proof (induction a arbitrary: w)
  case Nil
  then show ?case using split_from_spaces[of ws w b] by simp
next
  case (Cons x a)
  then show ?case by auto
qed

lemma split_from_trailing:
  "\<forall>c\<in>set ws. isspace c \<Longrightarrow> split_from w (a @ ws) = split_from w a"
proof (cases "ws = []")
  case True
  then show ?thesis by simp
next
  case False
  assume "\<forall>c\<in>set ws. isspace c"
  then show ?thesis using split_from_gap[OF False, of w a "[]"] by simp
qed

lemma py_split_gap:
  "ws \<noteq> [] \<Longrightarrow> \<forall>c\<in>set ws. isspace c \<Longrightarrow>
   py_split (a @ ws @ b) = py_split a @ py_split b"
  unfolding py_split_def by (rule split_from_gap)

lemma py_split_around:
  "\<forall>c\<in>set lead. isspace c \<Longrightarrow> \<forall>c\<in>set trail. isspace c \<Longrightarrow>
   py_split (lead @ s @ trail) = py_split s"
  unfolding py_split_def
  using split_from_spaces[of lead "[]" "s @ trail"] split_from_trailing[of trail "[]" s]
  by auto

lemma py_strip_parts:
  "\<exists>lead trail. s = lead @ py_strip s @ trail
     \<and> (\<forall>c\<in>set lead. isspace c) \<and> (\<forall>c\<in>set trail. isspace c)"
proof -
  let ?d = "dropWhile isspace s"
  have 1: "s = takeWhile isspace s @ ?d" by simp
  have "rev (rev ?d) = rev (takeWhile isspace (rev ?d) @ dropWhile isspace (rev ?d))"
    by (simp only: takeWhile_dropWhile_id)
  then have 2: "?d = py_strip s @ rev (takeWhile isspace (rev ?d))"
    by (simp only: rev_rev_ident rev_append py_strip_def)
  have 3: "\<forall>c\<in>set (takeWhile isspace s). isspace c"
    by (auto dest: set_takeWhileD)
  have 4: "\<forall>c\<in>set (rev (takeWhile isspace (rev ?d))). isspace c"
    by (auto dest: set_takeWhileD)
  have "s = takeWhile isspace s @ py_strip s @ rev (takeWhile isspace (rev ?d))"
    using 1 2 by metis
  then show ?thesis using 3 4 by blast
qed

lemma py_replace_around:
  assumes "\<forall>c\<in>set lead. isspace c" "\<forall>c\<in>set trail. isspace c" "\<not> isspace q"
  shows "py_replace [backslash, q] new (lead @ s @ trail)
           = lead @ py_replace [backslash, q] new s @ trail"
proof -
  have l: "backslash \<notin> set lead" using assms(1) isspace_chars(1) by auto
  have t: "backslash \<notin> set trail" using assms(2) isspace_chars(1) by auto
  have h: "trail = [] \<or> hd trail \<noteq> q" using assms(2,3) by (cases trail) auto
  show ?thesis
    using py_replace_prefix_absent[OF l, of q new "s @ trail"]
      py_replace_append_hd[OF h, of backslash new s] py_replace_absent[OF t, of q new]
    by simp
qed

lemma unescape_around:
  assumes "\<forall>c\<in>set lead. isspace c" "\<forall>c\<in>set trail. isspace c"
  shows "unescape (lead @ s @ trail) = lead @ unescape s @ trail"
  unfolding unescape_def
  by (simp add: py_replace_around[OF assms] isspace_chars)

lemma normalize_text_unescape:
  "normalize_text s = py_lower (py_join '' '' (py_split (unescape s)))"
proof (cases "s = []")
  case True
  then show ?thesis by (simp add: normalize_text_def unescape_def py_split_def py_lower_def)
next
  case False
  obtain lead trail where p: "s = lead @ py_strip s @ trail"
    "\<forall>c\<in>set lead. isspace c" "\<forall>c\<in>set trail. isspace c"
    using py_strip_parts[of s] by blast
  have "unescape s = lead @ unescape (py_strip s) @ trail"
    using unescape_around[OF p(2,3), of "py_strip s"] p(1) by simp
  then have "py_split (unescape s) = py_split (unescape (py_strip s))"
    using py_split_around[OF p(2,3)] by simp
  then show ?thesis
    using False by (simp add: normalize_text_def unescape_def Let_def)
qed

lemma py_replace_before:
  "c \<noteq> q \<Longrightarrow> py_replace [p, q] new (u @ c # v)
     = py_replace [p, q] new u @ py_replace [p, q] new (c # v)"
  using py_replace_append_hd[of "c # v" q p new u] by simp

lemma py_replace_after:
  "u = [] \<or> last u \<noteq> p \<Longrightarrow> py_replace [p, q] new (u @ v)
     = py_replace [p, q] new u @ py_replace [p, q] new v"
  by (rule py_replace_append_last)

lemma py_replace_gap:
  assumes "ws \<noteq> []" "\<forall>c\<in>set ws. isspace c" "\<not> isspace q"
  shows "py_replace [backslash, q] new (u @ ws @ v)
           = py_replace [backslash, q] new u @ ws @ py_replace [backslash, q] new v"
proof -
  have h: "ws @ v = [] \<or> hd (ws @ v) \<noteq> q" using assms by (cases ws) auto
  have l: "backslash \<notin> set ws" using assms(2) isspace_chars(1) by auto
  show ?thesis
    using py_replace_append_hd[OF h, of backslash new u]
      py_replace_prefix_absent[OF l, of q new v]
    by simp
qed

lemma unescape_gap:
  assumes "ws \<noteq> []" "\<forall>c\<in>set ws. isspace c"
  shows "unescape (u @ ws @ v) = unescape u @ ws @ unescape v"
  unfolding unescape_def
  by (simp add: py_replace_gap[OF assms] isspace_chars)

lemma unescape_newline:
  "unescape (u @ [backslash, CHR ''n''] @ v) = unescape (u @ [newline] @ v)"
proof -
  let ?r1 = "py_replace [backslash, CHR '',''] '',''"
  let ?r2 = "py_replace [backslash, CHR '';''] '';''"
  let ?r3 = "py_replace [backslash, CHR ''n''] [newline]"
  have e1: "?r1 (u @ [backslash, CHR ''n''] @ v) = ?r1 u @ [backslash, CHR ''n''] @ ?r1 v"
    using py_replace_before[of backslash "CHR '',''" backslash "'',''" u "CHR ''n'' # v"]
    by (simp add: chars_distinct)
  have n1: "?r1 (u @ [newline] @ v) = ?r1 u @ [newline] @ ?r1 v"
    using py_replace_before[of newline "CHR '',''" backslash "'',''" u v]
    by (simp add: chars_distinct)
  have e2: "?r2 (?r1 u @ [backslash, CHR ''n''] @ ?r1 v)
             = ?r2 (?r1 u) @ [backslash, CHR ''n''] @ ?r2 (?r1 v)"
    using py_replace_before[of backslash "CHR '';''" backslash "'';''" "?r1 u"
        "CHR ''n'' # ?r1 v"]
    by (simp add: chars_distinct)
  have n2: "?r2 (?r1 u @ [newline] @ ?r1 v) = ?r2 (?r1 u) @ [newline] @ ?r2 (?r1 v)"
    using py_replace_before[of newline "CHR '';''" backslash "'';''" "?r1 u" "?r1 v"]
    by (simp add: chars_distinct)
  have e3: "?r3 (?r2 (?r1 u) @ [backslash, CHR ''n''] @ ?r2 (?r1 v))
             = ?r3 (?r2 (?r1 u)) @ [newline] @ ?r3 (?r2 (?r1 v))"
    using py_replace_before[of backslash "CHR ''n''" backslash "[newline]" "?r2 (?r1 u)"
        "CHR ''n'' # ?r2 (?r1 v)"]
    by (simp add: chars_distinct)
  have n3: "?r3 (?r2 (?r1 u) @ [newline] @ ?r2 (?r1 v))
              = ?r3 (?r2 (?r1 u)) @ [newline] @ ?r3 (?r2 (?r1 v))"
    using py_replace_before[of newline "CHR ''n''" backslash "[newline]" "?r2 (?r1 u)"
        "?r2 (?r1 v)"]
    by (simp add: chars_distinct)
  show ?thesis
    unfolding unescape_def e1 n1 e2 n2 e3 n3 ..
qed

lemma unescape_comma:
  assumes "u = [] \<or> last u \<noteq> backslash"
  shows "unescape (u @ [backslash, CHR '',''] @ v) = unescape (u @ '','' @ v)"
proof -
  let ?r1 = "py_replace [backslash, CHR '',''] '',''"
  have e1: "?r1 (u @ [backslash, CHR '',''] @ v) = ?r1 u @ '','' @ ?r1 v"
    using py_replace_before[of backslash "CHR '',''" backslash "'',''" u "CHR '','' # v"]
    by (simp add: chars_distinct)
  have n1: "?r1 (u @ '','' @ v) = ?r1 u @ '','' @ ?r1 v"
    using py_replace_after[OF assms, of "CHR '',''" "'',''" "'','' @ v"]
    by (simp add: chars_distinct)
  show ?thesis
    unfolding unescape_def e1 n1 ..
qed

lemma unescape_semicolon:
  assumes "u = [] \<or> last u \<noteq> backslash"
  shows "unescape (u @ [backslash, CHR '';''] @ v) = unescape (u @ '';'' @ v)"
proof -
  let ?r1 = "py_replace [backslash, CHR '',''] '',''"
  let ?r2 = "py_replace [backslash, CHR '';''] '';''"
  have a: "?r1 u = [] \<or> last (?r1 u) \<noteq> backslash"
    using py_replace_last[OF assms, of "'',''" backslash "CHR '',''"]
    by (simp add: chars_distinct)
  have e1: "?r1 (u @ [backslash, CHR '';''] @ v) = ?r1 u @ [backslash, CHR '';''] @ ?r1 v"
    using py_replace_before[of backslash "CHR '',''" backslash "'',''" u "CHR '';'' # v"]
    by (simp add: chars_distinct)
  have n1: "?r1 (u @ '';'' @ v) = ?r1 u @ '';'' @ ?r1 v"
    using py_replace_before[of "CHR '';''" "CHR '',''" backslash "'',''" u v]
    by (simp add: chars_distinct)
  have e2: "?r2 (?r1 u @ [backslash, CHR '';''] @ ?r1 v) = ?r2 (?r1 u) @ '';'' @ ?r2 (?r1 v)"
    using py_replace_before[of backslash "CHR '';''" backslash "'';''" "?r1 u"
        "CHR '';'' # ?r1 v"]
    by (simp add: chars_distinct)
  have n2: "?r2 (?r1 u @ '';'' @ ?r1 v) = ?r2 (?r1 u) @ '';'' @ ?r2 (?r1 v)"
    using py_replace_after[OF a, of "CHR '';''" "'';''" "'';'' @ ?r1 v"]
    by (simp add: chars_distinct)
  show ?thesis
    unfolding unescape_def e1 n1 e2 n2 ..
qed

lemma py_replace_backslashes:
  assumes "q \<noteq> backslash" "v = [] \<or> hd v \<noteq> q"
  shows "py_replace [backslash, q] new (u @ [backslash, backslash] @ v)
           = py_replace [backslash, q] new u @ [backslash, backslash]
               @ py_replace [backslash, q] new v"
    and "py_replace [backslash, q] new (u @ [backslash] @ v)
           = py_replace [backslash, q] new u @ [backslash] @ py_replace [backslash, q] new v"
proof -
  have a: "py_replace [backslash, q] new (backslash # v)
             = backslash # py_replace [backslash, q] new v"
    using assms(2) by (rule py_replace_two_first)
  have b: "py_replace [backslash, q] new (backslash # backslash # v)
             = backslash # backslash # py_replace [backslash, q] new v"
    using py_replace_two_first[of "backslash # v" q backslash new] assms(1) a by simp
  show "py_replace [backslash, q] new (u @ [backslash, backslash] @ v)
           = py_replace [backslash, q] new u @ [backslash, backslash]
               @ py_replace [backslash, q] new v"
    using py_replace_before[of backslash q backslash new u "backslash # v"] assms(1) b
    by simp
  show "py_replace [backslash, q] new (u @ [backslash] @ v)
           = py_replace [backslash, q] new u @ [backslash] @ py_replace [backslash, q] new v"
    using py_replace_before[of backslash q backslash new u v] assms(1) a
    by simp
qed

lemma py_replace_keeps_hd:
  assumes "v = [] \<or> (hd v \<noteq> backslash \<and> hd v \<noteq> a \<and> hd v \<noteq> b)"
  shows "py_replace [backslash, q] new v = []
         \<or> (hd (py_replace [backslash, q] new v) \<noteq> backslash
              \<and> hd (py_replace [backslash, q] new v) \<noteq> a
              \<and> hd (py_replace [backslash, q] new v) \<noteq> b)"
  using assms by (cases v) auto

lemma unescape_backslash:
  assumes U: "u = [] \<or> last u \<noteq> backslash"
    and V: "v = [] \<or> (hd v \<noteq> backslash \<and> hd v \<noteq> CHR '','' \<and> hd v \<noteq> CHR '';''
                          \<and> hd v \<noteq> CHR ''n'')"
  shows "unescape (u @ [backslash, backslash] @ v) = unescape (u @ [backslash] @ v)"
proof -
  let ?r1 = "py_replace [backslash, CHR '',''] '',''"
  let ?r2 = "py_replace [backslash, CHR '';''] '';''"
  let ?r3 = "py_replace [backslash, CHR ''n''] [newline]"
  let ?r4 = "py_replace [backslash, backslash] [backslash]"
  have v1: "v = [] \<or> hd v \<noteq> CHR '',''" using V by auto
  have V1: "?r1 v = [] \<or> (hd (?r1 v) \<noteq> backslash \<and> hd (?r1 v) \<noteq> CHR '';''
                              \<and> hd (?r1 v) \<noteq> CHR ''n'')"
    using py_replace_keeps_hd[of v "CHR '';''" "CHR ''n''" "CHR '',''" "'',''"] V by auto
  have v2: "?r1 v = [] \<or> hd (?r1 v) \<noteq> CHR '';''" using V1 by auto
  have V2: "?r2 (?r1 v) = [] \<or> (hd (?r2 (?r1 v)) \<noteq> backslash
                                    \<and> hd (?r2 (?r1 v)) \<noteq> CHR ''n''
                                    \<and> hd (?r2 (?r1 v)) \<noteq> CHR ''n'')"
    using py_replace_keeps_hd[of "?r1 v" "CHR ''n''" "CHR ''n''" "CHR '';''" "'';''"] V1
    by auto
  have v3: "?r2 (?r1 v) = [] \<or> hd (?r2 (?r1 v)) \<noteq> CHR ''n''" using V2 by auto
  have V3: "?r3 (?r2 (?r1 v)) = [] \<or> hd (?r3 (?r2 (?r1 v))) \<noteq> backslash"
    using py_replace_keeps_hd[of "?r2 (?r1 v)" "CHR ''n''" "CHR ''n''" "CHR ''n''" "[newline]"]
      V2 by auto
  have U1: "?r1 u = [] \<or> last (?r1 u) \<noteq> backslash"
    using py_replace_last[OF U, of "'',''" backslash "CHR '',''"] by (simp add: chars_distinct)
  have U2: "?r2 (?r1 u) = [] \<or> last (?r2 (?r1 u)) \<noteq> backslash"
    using py_replace_last[OF U1, of "'';''" backslash "CHR '';''"] by (simp add: chars_distinct)
  have U3: "?r3 (?r2 (?r1 u)) = [] \<or> last (?r3 (?r2 (?r1 u))) \<noteq> backslash"
    using py_replace_last[OF U2, of "[newline]" backslash "CHR ''n''"]
    by (simp add: chars_distinct)
  note s1 = py_replace_backslashes[OF chars_distinct(5) v1, of "'',''" u]
  note s2 = py_replace_backslashes[OF chars_distinct(6) v2, of "'';''" "?r1 u"]
  note s3 = py_replace_backslashes[OF chars_distinct(7) v3, of "[newline]" "?r2 (?r1 u)"]
  have e4: "?r4 (?r3 (?r2 (?r1 u)) @ [backslash, backslash] @ ?r3 (?r2 (?r1 v)))
              = ?r4 (?r3 (?r2 (?r1 u))) @ [backslash] @ ?r4 (?r3 (?r2 (?r1 v)))"
    using py_replace_after[OF U3, of backslash "[backslash]"
        "[backslash, backslash] @ ?r3 (?r2 (?r1 v))"]
    by simp
  have n4: "?r4 (?r3 (?r2 (?r1 u)) @ [backslash] @ ?r3 (?r2 (?r1 v)))
              = ?r4 (?r3 (?r2 (?r1 u))) @ [backslash] @ ?r4 (?r3 (?r2 (?r1 v)))"
    using py_replace_after[OF U3, of backslash "[backslash]" "[backslash] @ ?r3 (?r2 (?r1 v))"]
      py_replace_two_first[OF V3, of backslash "[backslash]"]
    by simp
  show ?thesis
    unfolding unescape_def s1 s2 s3 e4 n4 ..
qed

lemma normalize_text_gap:
  assumes "ws1 \<noteq> []" "ws2 \<noteq> []" "\<forall>c\<in>set ws1. isspace c" "\<forall>c\<in>set ws2. isspace c"
  shows "normalize_text (u @ ws1 @ v) = normalize_text (u @ ws2 @ v)"
  unfolding normalize_text_unescape
  using unescape_gap[OF assms(1,3), of u v] unescape_gap[OF assms(2,4), of u v]
    py_split_gap[OF assms(1,3), of "unescape u" "unescape v"]
    py_split_gap[OF assms(2,4), of "unescape u" "unescape v"]
  by simp

lemma normalize_text_around:
  assumes "\<forall>c\<in>set lead. isspace c" "\<forall>c\<in>set trail. isspace c"
  shows "normalize_text (lead @ s @ trail) = normalize_text s"
  unfolding normalize_text_unescape
  using unescape_around[OF assms, of s] py_split_around[OF assms, of "unescape s"]
  by simp

lemma hash_summary:
  "normalize_text s = normalize_text t \<Longrightarrow>
   calculate_event_hash self (e\<lparr>summary := s\<rparr>) = calculate_event_hash self (e\<lparr>summary := t\<rparr>)"
  by (simp add: calculate_event_hash_def)

section \<open>The claims\<close>

text \<open>
  C1, as the code has it. \<open>times_match\<close> is false when either value is absent. When the
  conversions succeed it holds exactly if the two values, brought to a common zone and
  cut to whole seconds, lie at most 60 seconds apart: two aware values are compared in
  UTC, two naive values as they are, and in a mixture the naive value takes the offset of
  the configured zone first, whichever of the two arguments it is. When the zone is
  unknown or cannot place the naive value, the result is false. When a value cannot be converted to UTC (its date would leave the
  years 1 to 9999), the result is not false but the equality of the string forms of the
  two values, the naive one in its localized form.
\<close>

theorem times_match_whole_seconds_or_strings:
  "times_match self None b = False
   \<and> times_match self a None = False
   \<and> (tzinfo t1 = Some o1 \<and> tzinfo t2 = Some o2
        \<and> representable (wall t1 - o1) \<and> representable (wall t2 - o2)
      \<longrightarrow> times_match self (Some t1) (Some t2)
            = (\<bar>whole_seconds (wall t1 - o1) - whole_seconds (wall t2 - o2)\<bar> \<le> 60))
   \<and> (tzinfo n1 = None \<and> tzinfo n2 = None
      \<longrightarrow> times_match self (Some n1) (Some n2)
            = (\<bar>whole_seconds (wall n1) - whole_seconds (wall n2)\<bar> \<le> 60))
   \<and> (tzinfo n1 = None \<and> tzinfo t2 = Some o2
        \<and> pytz_timezone self (timezone (config self)) = Some z \<and> z (wall n1) = Some off
        \<and> representable (wall n1 - off) \<and> representable (wall t2 - o2)
      \<longrightarrow> times_match self (Some n1) (Some t2)
            = (\<bar>whole_seconds (wall n1 - off) - whole_seconds (wall t2 - o2)\<bar> \<le> 60))
   \<and> (tzinfo t1 = Some o1 \<and> tzinfo t2 = Some o2
        \<and> \<not> (representable (wall t1 - o1) \<and> representable (wall t2 - o2))
      \<longrightarrow> times_match self (Some t1) (Some t2) = (str_datetime t1 = str_datetime t2))
   \<and> (tzinfo n1 = None \<and> tzinfo t2 = Some o2
        \<and> pytz_timezone self (timezone (config self)) = Some z \<and> z (wall n1) = Some off
        \<and> \<not> (representable (wall n1 - off) \<and> representable (wall t2 - o2))
      \<longrightarrow> times_match self (Some n1) (Some t2)
            = (str_datetime (n1\<lparr>tzinfo := Some off\<rparr>) = str_datetime t2))
   \<and> (tzinfo n1 = None \<and> tzinfo t2 = Some o2
        \<and> (pytz_timezone self (timezone (config self)) = None
             \<or> (\<exists>z. pytz_timezone self (timezone (config self)) = Some z \<and> z (wall n1) = None))
      \<longrightarrow> times_match self (Some n1) (Some t2) = False)
   \<and> (tzinfo t1 = Some o1 \<and> tzinfo n2 = None
        \<and> pytz_timezone self (timezone (config self)) = Some z \<and> z (wall n2) = Some off
        \<and> representable (wall t1 - o1) \<and> representable (wall n2 - off)
      \<longrightarrow> times_match self (Some t1) (Some n2)
            = (\<bar>whole_seconds (wall t1 - o1) - whole_seconds (wall n2 - off)\<bar> \<le> 60))
   \<and> (tzinfo t1 = Some o1 \<and> tzinfo n2 = None
        \<and> pytz_timezone self (timezone (config self)) = Some z \<and> z (wall n2) = Some off
        \<and> \<not> (representable (wall t1 - o1) \<and> representable (wall n2 - off))
      \<longrightarrow> times_match self (Some t1) (Some n2)
            = (str_datetime t1 = str_datetime (n2\<lparr>tzinfo := Some off\<rparr>)))
   \<and> (tzinfo t1 = Some o1 \<and> tzinfo n2 = None
        \<and> (pytz_timezone self (timezone (config self)) = None
             \<or> (\<exists>z. pytz_timezone self (timezone (config self)) = Some z \<and> z (wall n2) = None))
      \<longrightarrow> times_match self (Some t1) (Some n2) = False)"
proof -
  have 1: "times_match self None b = False" "times_match self a None = False"
    by (rule times_match_None)+
  have 2: "tzinfo t1 = Some o1 \<and> tzinfo t2 = Some o2
        \<and> representable (wall t1 - o1) \<and> representable (wall t2 - o2)
      \<longrightarrow> times_match self (Some t1) (Some t2)
            = (\<bar>whole_seconds (wall t1 - o1) - whole_seconds (wall t2 - o2)\<bar> \<le> 60)"
    using times_match_aware_ok[of t1 o1 t2 o2 self] by blast
  have 3: "tzinfo n1 = None \<and> tzinfo n2 = None
      \<longrightarrow> times_match self (Some n1) (Some n2)
            = (\<bar>whole_seconds (wall n1) - whole_seconds (wall n2)\<bar> \<le> 60)"
    using times_match_naive_ok[of n1 n2 self] by blast
  have 4: "tzinfo n1 = None \<and> tzinfo t2 = Some o2
        \<and> pytz_timezone self (timezone (config self)) = Some z \<and> z (wall n1) = Some off
        \<and> representable (wall n1 - off) \<and> representable (wall t2 - o2)
      \<longrightarrow> times_match self (Some n1) (Some t2)
            = (\<bar>whole_seconds (wall n1 - off) - whole_seconds (wall t2 - o2)\<bar> \<le> 60)"
    using times_match_naive_aware_ok[of n1 t2 o2 self z off] by blast
  have 5: "tzinfo t1 = Some o1 \<and> tzinfo t2 = Some o2
        \<and> \<not> (representable (wall t1 - o1) \<and> representable (wall t2 - o2))
      \<longrightarrow> times_match self (Some t1) (Some t2) = (str_datetime t1 = str_datetime t2)"
    using times_match_aware_fail[of t1 o1 t2 o2 self] by blast
  have 6: "tzinfo n1 = None \<and> tzinfo t2 = Some o2
        \<and> pytz_timezone self (timezone (config self)) = Some z \<and> z (wall n1) = Some off
        \<and> \<not> (representable (wall n1 - off) \<and> representable (wall t2 - o2))
      \<longrightarrow> times_match self (Some n1) (Some t2)
            = (str_datetime (n1\<lparr>tzinfo := Some off\<rparr>) = str_datetime t2)"
    using times_match_naive_aware_fail[of n1 t2 o2 self z off] by blast
  have 7: "tzinfo n1 = None \<and> tzinfo t2 = Some o2
        \<and> (pytz_timezone self (timezone (config self)) = None
             \<or> (\<exists>z. pytz_timezone self (timezone (config self)) = Some z \<and> z (wall n1) = None))
      \<longrightarrow> times_match self (Some n1) (Some t2) = False"
    using times_match_naive_aware_nozone_False[of n1 t2 o2 self] by blast
  have 8: "tzinfo t1 = Some o1 \<and> tzinfo n2 = None
        \<and> pytz_timezone self (timezone (config self)) = Some z \<and> z (wall n2) = Some off
        \<and> representable (wall t1 - o1) \<and> representable (wall n2 - off)
      \<longrightarrow> times_match self (Some t1) (Some n2)
            = (\<bar>whole_seconds (wall t1 - o1) - whole_seconds (wall n2 - off)\<bar> \<le> 60)"
    using times_match_aware_naive_ok[of t1 o1 n2 self z off] by blast
  have 9: "tzinfo t1 = Some o1 \<and> tzinfo n2 = None
        \<and> pytz_timezone self (timezone (config self)) = Some z \<and> z (wall n2) = Some off
        \<and> \<not> (representable (wall t1 - o1) \<and> representable (wall n2 - off))
      \<longrightarrow> times_match self (Some t1) (Some n2)
            = (str_datetime t1 = str_datetime (n2\<lparr>tzinfo := Some off\<rparr>))"
    using times_match_aware_naive_fail[of t1 o1 n2 self z off] by blast
  have 10: "tzinfo t1 = Some o1 \<and> tzinfo n2 = None
        \<and> (pytz_timezone self (timezone (config self)) = None
             \<or> (\<exists>z. pytz_timezone self (timezone (config self)) = Some z \<and> z (wall n2) = None))
      \<longrightarrow> times_match self (Some t1) (Some n2) = False"
    using times_match_aware_naive_nozone_False[of t1 o1 n2 self] by blast
  show ?thesis
    using 1 2 3 4 5 6 7 8 9 10 by (intro conjI)
qed

theorem times_match_whole_seconds_or_strings_witness:
  "times_match example_engine
     (Some (datetime_new 2024 1 1 9 0 0 0 (Some 0)))
     (Some (datetime_new 2024 1 1 9 1 0 999999 (Some 0)))
   \<and> \<not> times_match example_engine
       (Some (datetime_new 2024 1 1 9 0 0 0 (Some 0)))
       (Some (datetime_new 2024 1 1 9 1 1 0 (Some 0)))
   \<and> times_match example_engine
       (Some (datetime_new 2024 1 1 9 0 0 0 None))
       (Some (datetime_new 2024 1 1 9 1 0 999999 None))
   \<and> times_match example_engine
       (Some (datetime_new 2024 1 1 9 0 0 0 None))
       (Some (datetime_new 2024 1 1 14 0 0 0 (Some 0)))
   \<and> times_match example_engine (Some first_day_east) (Some first_day_east)
   \<and> \<not> times_match (example_engine\<lparr>pytz_timezone := (\<lambda>name. None)\<rparr>)
       (Some (datetime_new 2024 1 1 9 0 0 0 None))
       (Some (datetime_new 2024 1 1 14 0 0 0 (Some 0)))
   \<and> times_match example_engine
       (Some (datetime_new 2024 1 1 14 0 0 0 (Some 0)))
       (Some (datetime_new 2024 1 1 9 1 0 0 None))
   \<and> \<not> times_match example_engine
       (Some (datetime_new 2024 1 1 14 0 0 0 (Some 0)))
       (Some (datetime_new 2024 1 1 9 1 1 0 None))
   \<and> \<not> times_match (example_engine\<lparr>pytz_timezone := (\<lambda>name. None)\<rparr>)
       (Some (datetime_new 2024 1 1 14 0 0 0 (Some 0)))
       (Some (datetime_new 2024 1 1 9 0 0 0 None))"
proof -
  have z: "pytz_timezone example_engine (timezone (config example_engine)) = Some example_zone"
    by (simp add: example_engine_def)
  show ?thesis
    using
      times_match_whole_seconds_or_strings[where self=example_engine
        and ?t1.0="datetime_new 2024 1 1 9 0 0 0 (Some 0)" and ?o1.0=0
        and ?t2.0="datetime_new 2024 1 1 9 1 0 999999 (Some 0)" and ?o2.0=0
        and ?n1.0="datetime_new 2024 1 1 9 0 0 0 None"
        and ?n2.0="datetime_new 2024 1 1 9 1 0 999999 None"]
      times_match_whole_seconds_or_strings[where self=example_engine
        and ?t1.0="datetime_new 2024 1 1 9 0 0 0 (Some 0)" and ?o1.0=0
        and ?t2.0="datetime_new 2024 1 1 9 1 1 0 (Some 0)" and ?o2.0=0]
      times_match_whole_seconds_or_strings[where self=example_engine
        and ?n1.0="datetime_new 2024 1 1 9 0 0 0 None"
        and ?t2.0="datetime_new 2024 1 1 14 0 0 0 (Some 0)" and ?o2.0=0
        and z=example_zone and off="- 18000000000"]
      times_match_whole_seconds_or_strings[where self=example_engine
        and ?t1.0=first_day_east and ?o1.0=18000000000
        and ?t2.0=first_day_east and ?o2.0=18000000000]
      times_match_whole_seconds_or_strings[where
        self="example_engine\<lparr>pytz_timezone := (\<lambda>name. None)\<rparr>"
        and ?n1.0="datetime_new 2024 1 1 9 0 0 0 None"
        and ?t2.0="datetime_new 2024 1 1 14 0 0 0 (Some 0)" and ?o2.0=0]
      times_match_whole_seconds_or_strings[where self=example_engine
        and ?t1.0="datetime_new 2024 1 1 14 0 0 0 (Some 0)" and ?o1.0=0
        and ?n2.0="datetime_new 2024 1 1 9 1 0 0 None"
        and z=example_zone and off="- 18000000000"]
      times_match_whole_seconds_or_strings[where self=example_engine
        and ?t1.0="datetime_new 2024 1 1 14 0 0 0 (Some 0)" and ?o1.0=0
        and ?n2.0="datetime_new 2024 1 1 9 1 1 0 None"
        and z=example_zone and off="- 18000000000"]
      times_match_whole_seconds_or_strings[where
        self="example_engine\<lparr>pytz_timezone := (\<lambda>name. None)\<rparr>"
        and ?t1.0="datetime_new 2024 1 1 14 0 0 0 (Some 0)" and ?o1.0=0
        and ?n2.0="datetime_new 2024 1 1 9 0 0 0 None"]
      z
    by (simp add: representable_def MAX_WALL_def whole_seconds_def example_zone_def
        wall_first_day_east datetime_new_def ymd2ord_def days_before_year_def
        days_before_month_def is_leap_def)
qed

text \<open>
  C1 as stated fails: for 0001-01-01 00:00:00+05:00 the conversion to UTC raises, and the
  value still matches itself.
\<close>

theorem times_match_true_after_failed_conversion:
  "astimezone_utc first_day_east = Inl OverflowError
   \<and> times_match example_engine (Some first_day_east) (Some first_day_east) = True"
  using times_match_aware_fail[of first_day_east 18000000000 first_day_east 18000000000
      example_engine]
  by (simp add: wall_first_day_east astimezone_utc_def representable_def)

text \<open>
  C9. The time-match predicate is symmetric: \<open>times_match a b = times_match b a\<close> for all
  inputs, absent values, mixtures of naive and aware values and values whose conversion
  fails included.
\<close>

theorem times_match_symmetric: "times_match self a b = times_match self b a"
  by (rule times_match_commute)


text \<open>
  C2, as the code has it. A source event whose start or end is absent finds no
  reschedule match and no similar event, and it is never skipped. The exact tier still
  applies to it, since the fingerprint prints an absent time as \<^verbatim>\<open>None\<close>: when a target
  event has its fingerprint the event is classified as an update (\<^verbatim>\<open>_needs_update\<close> holds
  for every target, an absent time matching nothing), otherwise it is created.
\<close>

theorem absent_time_updates_or_creates:
  assumes "start ev = None \<or> end_time ev = None"
  shows "find_rescheduled_event self ev tg = None
     \<and> find_similar_event self ev tg = None
     \<and> fst (sync_source_event self (target_lookup_loop self Map.empty tg) tg dir dry avoid ev
              (s, w))
         = (if \<exists>t\<in>set tg. calculate_event_hash self t = calculate_event_hash self ev
            then s\<lparr>updated := updated s + 1\<rparr>
            else s\<lparr>created := created s + 1\<rparr>)
     \<and> printed (snd (sync_source_event self (target_lookup_loop self Map.empty tg) tg dir True
                        avoid ev (s, w)))
         = printed w @
            [if \<exists>t\<in>set tg. calculate_event_hash self t = calculate_event_hash self ev
             then Updating True (summary ev) else Creating True (summary ev)]"
proof (cases "\<exists>t\<in>set tg. calculate_event_hash self t = calculate_event_hash self ev")
  case True
  then obtain t where "t \<in> set tg" "calculate_event_hash self t = calculate_event_hash self ev"
    by blast
  from target_lookup_hit[OF this] obtain t' where
    "target_lookup_loop self Map.empty tg (calculate_event_hash self ev) = Some t'" by blast
  then show ?thesis
    using True assms find_rescheduled_absent[OF assms] find_similar_absent[OF assms]
      needs_update_absent[OF assms]
    by (simp add: sync_source_event_def Let_def emit_def)
next
  case False
  then have "target_lookup_loop self Map.empty tg (calculate_event_hash self ev) = None"
    by (simp add: target_lookup_none)
  then show ?thesis
    using False find_rescheduled_absent[OF assms] find_similar_absent[OF assms]
    by (simp add: sync_source_event_def Let_def emit_def)
qed

theorem absent_time_updates_or_creates_witness:
  "end_time standup_without_end = None
   \<and> find_rescheduled_event example_engine standup_without_end [standup_without_end] = None
   \<and> find_similar_event example_engine standup_without_end [standup_without_end] = None
   \<and> fst (sync_source_event example_engine
            (target_lookup_loop example_engine Map.empty [standup_without_end])
            [standup_without_end] ''google_to_icloud'' False False standup_without_end
            (\<lparr>created = 0, updated = 0, skipped = 0\<rparr>, empty_world))
       = \<lparr>created = 0, updated = 1, skipped = 0\<rparr>
   \<and> fst (sync_source_event example_engine (target_lookup_loop example_engine Map.empty [])
            [] ''google_to_icloud'' False False standup_without_end
            (\<lparr>created = 0, updated = 0, skipped = 0\<rparr>, empty_world))
       = \<lparr>created = 1, updated = 0, skipped = 0\<rparr>"
proof -
  have e: "start standup_without_end = None \<or> end_time standup_without_end = None"
    by (simp add: standup_without_end_def)
  show ?thesis
    using absent_time_updates_or_creates[OF e, of example_engine "[standup_without_end]"
        "''google_to_icloud''" False False "\<lparr>created = 0, updated = 0, skipped = 0\<rparr>"
        empty_world]
      absent_time_updates_or_creates[OF e, of example_engine "[]"
        "''google_to_icloud''" False False "\<lparr>created = 0, updated = 0, skipped = 0\<rparr>"
        empty_world]
    by (simp add: standup_without_end_def)
qed

text \<open>
  C2 as stated fails: the standup without an end time, synced against a target that
  holds the same event, matches it in the exact tier and is counted as an update.
\<close>

theorem absent_end_matches_exactly_and_updates:
  "end_time standup_without_end = None
   \<and> sync_events example_engine [standup_without_end] [standup_without_end]
         ''google_to_icloud'' True False empty_world
       = (\<lparr>created = 0, updated = 1, skipped = 0\<rparr>,
          \<lparr>calls = [], printed = [Updating True ''Standup'']\<rparr>)"
proof -
  have e: "start standup_without_end = None \<or> end_time standup_without_end = None"
    by (simp add: standup_without_end_def)
  have s: "summary standup_without_end = ''Standup''"
    by (simp add: standup_without_end_def standup_def)
  show ?thesis
    using needs_update_absent[OF e, of example_engine standup_without_end] e s
    by (simp add: sync_events_single sync_source_event_def Let_def emit_def empty_world_def
        standup_without_end_def)
qed

text \<open>
  C3, as the code has it. When every source event has both times and the target list
  holds, for each source event, an event with the same title, description and times
  that no later target event shares the fingerprint with, a pass creates nothing and
  updates nothing: every source event is skipped as up to date, in a dry run and in a
  real one. (The lookup keeps the last target event of each fingerprint.)
\<close>

theorem unchanged_calendars_all_skipped:
  assumes "\<forall>e\<in>set source_events. start e \<noteq> None \<and> end_time e \<noteq> None"
    and "\<forall>e\<in>set source_events. \<exists>before t after.
           target_events = before @ t # after
           \<and> summary t = summary e \<and> description t = description e
           \<and> start t = start e \<and> end_time t = end_time e
           \<and> (\<forall>t'\<in>set after. calculate_event_hash self t' \<noteq> calculate_event_hash self e)"
  shows "sync_events self source_events target_events direction dry_run avoid_conflicts w
           = (\<lparr>created = 0, updated = 0, skipped = length source_events\<rparr>,
              w\<lparr>printed := printed w
                   @ map (\<lambda>e. SkippingUpToDate dry_run (summary e)) source_events\<rparr>)"
  unfolding sync_events_def Let_def
  using up_to_date_loop_last[OF assms, of direction dry_run avoid_conflicts
      "\<lparr>created = 0, updated = 0, skipped = 0\<rparr>" w]
  by simp

theorem unchanged_calendars_all_skipped_witness:
  "sync_events example_engine [standup, standup] [standup_with_notes, standup]
       ''icloud_to_google'' False False empty_world
     = (\<lparr>created = 0, updated = 0, skipped = 2\<rparr>,
        \<lparr>calls = [],
          printed = [SkippingUpToDate False ''Standup'', SkippingUpToDate False ''Standup'']\<rparr>)"
proof -
  have 1: "\<forall>e\<in>set [standup, standup]. start e \<noteq> None \<and> end_time e \<noteq> None"
    by (simp add: standup_def)
  have "\<exists>before t after.
           [standup_with_notes, standup] = before @ t # after
           \<and> summary t = summary standup \<and> description t = description standup
           \<and> start t = start standup \<and> end_time t = end_time standup
           \<and> (\<forall>t'\<in>set after. calculate_event_hash example_engine t'
                  \<noteq> calculate_event_hash example_engine standup)"
    by (rule exI[of _ "[standup_with_notes]"], rule exI[of _ standup], rule exI[of _ "[]"]) simp
  then have 2: "\<forall>e\<in>set [standup, standup]. \<exists>before t after.
           [standup_with_notes, standup] = before @ t # after
           \<and> summary t = summary e \<and> description t = description e
           \<and> start t = start e \<and> end_time t = end_time e
           \<and> (\<forall>t'\<in>set after. calculate_event_hash example_engine t'
                  \<noteq> calculate_event_hash example_engine e)"
    by simp
  show ?thesis
    using unchanged_calendars_all_skipped[OF 1 2, of "''icloud_to_google''" False False
        empty_world]
    by (simp add: standup_def empty_world_def)
qed

text \<open>
  C3 as stated fails: the target holds a copy of each of the two source events. The
  copy of the first is followed by an event with the same title and times and another
  description, which the lookup keeps for the shared fingerprint; the second has no end
  time, and an absent time matches nothing. Both are counted as updates.
\<close>

theorem copies_present_yet_updated:
  "set [standup, standup_without_end] \<subseteq> set [standup, standup_with_notes, standup_without_end]
   \<and> sync_events example_engine [standup, standup_without_end]
         [standup, standup_with_notes, standup_without_end]
         ''google_to_icloud'' True False empty_world
       = (\<lparr>created = 0, updated = 2, skipped = 0\<rparr>,
          \<lparr>calls = [], printed = [Updating True ''Standup'', Updating True ''Standup'']\<rparr>)"
proof -
  let ?tg = "[standup, standup_with_notes, standup_without_end]"
  let ?lk = "target_lookup_loop example_engine Map.empty ?tg"
  have h: "calculate_event_hash example_engine standup_with_notes
             = calculate_event_hash example_engine standup"
    by (rule hash_fields) (simp_all add: standup_with_notes_def)
  have n1: "needs_update example_engine standup standup_with_notes"
    by (simp add: needs_update_def Let_def standup_with_notes_def standup_def
        normalize_bring_notes normalize_text_def[of "[]"])
  have e: "start standup_without_end = None \<or> end_time standup_without_end = None"
    by (simp add: standup_without_end_def)
  have n2: "needs_update example_engine standup_without_end t" for t
    by (rule needs_update_absent[OF e])
  have n3: "needs_update example_engine standup standup_without_end"
    by (simp add: needs_update_def Let_def standup_without_end_def times_match_None)
  have s: "summary standup = ''Standup''" "summary standup_without_end = ''Standup''"
    by (simp_all add: standup_def standup_without_end_def)
  have l2: "?lk (calculate_event_hash example_engine standup_without_end)
              = Some standup_without_end"
    by (simp add: Let_def)
  have l1: "?lk (calculate_event_hash example_engine standup) = Some standup_with_notes
             \<or> ?lk (calculate_event_hash example_engine standup) = Some standup_without_end"
    by (simp add: Let_def h)
  have p1: "sync_source_event example_engine ?lk ?tg ''google_to_icloud'' True False standup
              (\<lparr>created = 0, updated = 0, skipped = 0\<rparr>, empty_world)
            = (\<lparr>created = 0, updated = 1, skipped = 0\<rparr>,
               \<lparr>calls = [], printed = [Updating True ''Standup'']\<rparr>)"
    using l1 n1 n3 s
    by (auto simp: sync_source_event_def Let_def emit_def empty_world_def
        simp del: target_lookup_loop.simps)
  have p2: "sync_source_event example_engine ?lk ?tg ''google_to_icloud'' True False
              standup_without_end
              (\<lparr>created = 0, updated = 1, skipped = 0\<rparr>,
               \<lparr>calls = [], printed = [Updating True ''Standup'']\<rparr>)
            = (\<lparr>created = 0, updated = 2, skipped = 0\<rparr>,
               \<lparr>calls = [], printed = [Updating True ''Standup'', Updating True ''Standup'']\<rparr>)"
    using l2 n2 s
    by (simp add: sync_source_event_def Let_def emit_def
        del: target_lookup_loop.simps)
  show ?thesis
    unfolding sync_events_def Let_def sync_loop.simps p1 p2 by simp
qed

text \<open>
  C5. For all source and target lists and every direction, a dry run returns the
  counters of the real run, and a dry run makes no backend call: the calls recorded
  after it are those recorded before it.
\<close>

theorem dry_run_same_counters_no_calls:
  "fst (sync_events self source_events target_events direction True avoid_conflicts w)
     = fst (sync_events self source_events target_events direction False avoid_conflicts w)
   \<and> calls (snd (sync_events self source_events target_events direction True
                    avoid_conflicts w)) = calls w"
proof -
  have "calls (snd (sync_events self source_events target_events direction True
                      avoid_conflicts w)) = calls w"
    by (simp add: sync_events_def Let_def sync_loop_dry_calls)
  then show ?thesis
    using sync_events_stats_dry[of self source_events target_events direction True
        avoid_conflicts w direction False w]
    by simp
qed



text \<open>
  C7. A failure of a backend call during a create or an update does not change the
  counters and does not end the pass. With any backends \<open>b\<close> in place of the engine's own,
  the pass returns the same counters, which add up to the number of source events; it
  makes the same calls in the same order, so the events after a failure are still
  converted and sent; and it prints the same lines apart from the error lines. The
  exception a create or update call raises is caught and printed after the call was
  made, and over the whole pass the error lines printed for backend failures carry, in
  order, the messages of exactly the calls that failed.
\<close>

theorem backend_failure_caught_and_counted:
  "fst (sync_events (self\<lparr>backend := b\<rparr>) source_events target_events direction dry_run
          avoid_conflicts w)
     = fst (sync_events self source_events target_events direction dry_run avoid_conflicts w)
   \<and> created (fst (sync_events self source_events target_events direction dry_run
                     avoid_conflicts w))
       + updated (fst (sync_events self source_events target_events direction dry_run
                         avoid_conflicts w))
       + skipped (fst (sync_events self source_events target_events direction dry_run
                         avoid_conflicts w))
       = length source_events
   \<and> (backend self (calls w) (ICloudCreateEvent (convert_to_icloud_format event)) = Some msg
        \<longrightarrow> create_event_in_target self event ''google_to_icloud'' w
              = w\<lparr>calls := calls w @ [ICloudCreateEvent (convert_to_icloud_format event)],
                   printed := printed w @ [ErrorCreating (summary event) (BackendError msg)]\<rparr>)
   \<and> (convert_to_google_format self event = Inr event_data
        \<and> backend self (calls w) (GoogleCreateEvent event_data) = Some msg
        \<longrightarrow> create_event_in_target self event ''icloud_to_google'' w
              = w\<lparr>calls := calls w @ [GoogleCreateEvent event_data],
                   printed := printed w @ [ErrorCreating (summary event) (BackendError msg)]\<rparr>)
   \<and> (convert_to_google_format self event = Inr event_data
        \<and> event_id target_event = Some eid \<and> eid \<noteq> []
        \<and> backend self (calls w) (GoogleUpdateEvent eid event_data) = Some msg
        \<longrightarrow> update_event_in_target self event target_event ''icloud_to_google'' w
              = w\<lparr>calls := calls w @ [GoogleUpdateEvent eid event_data],
                   printed := printed w @ [ErrorUpdating (summary event) (BackendError msg)]\<rparr>)
   \<and> calls (snd (sync_events (self\<lparr>backend := b\<rparr>) source_events target_events direction
                      dry_run avoid_conflicts w))
       = calls (snd (sync_events self source_events target_events direction dry_run
                       avoid_conflicts w))
   \<and> other_lines (printed (snd (sync_events (self\<lparr>backend := b\<rparr>) source_events target_events
                                    direction dry_run avoid_conflicts w)))
       = other_lines (printed (snd (sync_events self source_events target_events direction
                                      dry_run avoid_conflicts w)))
   \<and> logged_failures (backend self) w
         (snd (sync_events self source_events target_events direction dry_run
                 avoid_conflicts w))"
proof -
  have count:
    "created (fst (sync_events self source_events target_events direction dry_run
                     avoid_conflicts w))
       + updated (fst (sync_events self source_events target_events direction dry_run
                         avoid_conflicts w))
       + skipped (fst (sync_events self source_events target_events direction dry_run
                         avoid_conflicts w))
       = length source_events"
    unfolding sync_events_def Let_def
    using sync_loop_count[of self "target_lookup_loop self Map.empty target_events"
        target_events direction dry_run avoid_conflicts source_events
        "\<lparr>created = 0, updated = 0, skipped = 0\<rparr>" w]
    by simp
  have indep:
    "fst (sync_events (self\<lparr>backend := b\<rparr>) source_events target_events direction dry_run
            avoid_conflicts w)
       = fst (sync_events self source_events target_events direction dry_run avoid_conflicts w)"
    by (rule sync_events_stats)
  have same:
    "calls (snd (sync_events (self\<lparr>backend := b\<rparr>) source_events target_events direction
                   dry_run avoid_conflicts w))
       = calls (snd (sync_events self source_events target_events direction dry_run
                       avoid_conflicts w))
     \<and> other_lines (printed (snd (sync_events (self\<lparr>backend := b\<rparr>) source_events
                                      target_events direction dry_run avoid_conflicts w)))
       = other_lines (printed (snd (sync_events self source_events target_events direction
                                      dry_run avoid_conflicts w)))"
    by (rule same_sync_events)
  have logged:
    "logged_failures (backend self) w
       (snd (sync_events self source_events target_events direction dry_run
               avoid_conflicts w))"
    by (rule logged_failures_sync_events)
  have handlers:
    "(backend self (calls w) (ICloudCreateEvent (convert_to_icloud_format event)) = Some msg
        \<longrightarrow> create_event_in_target self event ''google_to_icloud'' w
              = w\<lparr>calls := calls w @ [ICloudCreateEvent (convert_to_icloud_format event)],
                   printed := printed w @ [ErrorCreating (summary event) (BackendError msg)]\<rparr>)
     \<and> (convert_to_google_format self event = Inr event_data
        \<and> backend self (calls w) (GoogleCreateEvent event_data) = Some msg
        \<longrightarrow> create_event_in_target self event ''icloud_to_google'' w
              = w\<lparr>calls := calls w @ [GoogleCreateEvent event_data],
                   printed := printed w @ [ErrorCreating (summary event) (BackendError msg)]\<rparr>)
     \<and> (convert_to_google_format self event = Inr event_data
        \<and> event_id target_event = Some eid \<and> eid \<noteq> []
        \<and> backend self (calls w) (GoogleUpdateEvent eid event_data) = Some msg
        \<longrightarrow> update_event_in_target self event target_event ''icloud_to_google'' w
              = w\<lparr>calls := calls w @ [GoogleUpdateEvent eid event_data],
                   printed := printed w @ [ErrorUpdating (summary event) (BackendError msg)]\<rparr>)"
    by (auto simp: create_event_in_target_def update_event_in_target_def call_backend_def)
  show ?thesis
    using count indep same logged handlers by simp
qed

theorem backend_failure_caught_and_counted_witness:
  "sync_events failing_engine [standup, retro] [standup_with_notes] ''icloud_to_google''
     False False empty_world
   = (\<lparr>created = 1, updated = 1, skipped = 0\<rparr>,
      \<lparr>calls =
         [GoogleUpdateEvent ''g2''
            \<lparr>g_summary = ''Standup'', g_description = [], g_location = [],
             g_start = GDateTime (datetime_new 2024 1 1 9 0 0 0 (Some 0)),
             g_end = GDateTime (datetime_new 2024 1 1 9 30 0 0 (Some 0))\<rparr>,
          GoogleCreateEvent
            \<lparr>g_summary = ''Retro'', g_description = [], g_location = ''Room 2'',
             g_start = GDateTime (datetime_new 2024 1 2 15 0 0 0 (Some 0)),
             g_end = GDateTime (datetime_new 2024 1 2 16 0 0 0 (Some 0))\<rparr>],
        printed =
         [ErrorUpdating ''Standup'' (BackendError ''timed out''), Updating False ''Standup'',
          ErrorCreating ''Retro'' (BackendError ''timed out''), Creating False ''Retro'']\<rparr>)
   \<and> fst (sync_events example_engine [standup, retro] [standup_with_notes]
            ''icloud_to_google'' False False empty_world)
       = \<lparr>created = 1, updated = 1, skipped = 0\<rparr>
   \<and> calls (snd (sync_events example_engine [standup, retro] [standup_with_notes]
                   ''icloud_to_google'' False False empty_world))
       = [GoogleUpdateEvent ''g2''
            \<lparr>g_summary = ''Standup'', g_description = [], g_location = [],
             g_start = GDateTime (datetime_new 2024 1 1 9 0 0 0 (Some 0)),
             g_end = GDateTime (datetime_new 2024 1 1 9 30 0 0 (Some 0))\<rparr>,
          GoogleCreateEvent
            \<lparr>g_summary = ''Retro'', g_description = [], g_location = ''Room 2'',
             g_start = GDateTime (datetime_new 2024 1 2 15 0 0 0 (Some 0)),
             g_end = GDateTime (datetime_new 2024 1 2 16 0 0 0 (Some 0))\<rparr>]
   \<and> other_lines (printed (snd (sync_events example_engine [standup, retro]
                                 [standup_with_notes] ''icloud_to_google'' False False
                                 empty_world)))
       = [Updating False ''Standup'', Creating False ''Retro'']
   \<and> create_event_in_target failing_engine standup ''google_to_icloud'' empty_world
       = \<lparr>calls = [ICloudCreateEvent (convert_to_icloud_format standup)],
          printed = [ErrorCreating ''Standup'' (BackendError ''timed out'')]\<rparr>
   \<and> create_event_in_target failing_engine retro ''icloud_to_google'' empty_world
       = \<lparr>calls =
            [GoogleCreateEvent
               \<lparr>g_summary = ''Retro'', g_description = [], g_location = ''Room 2'',
                g_start = GDateTime (datetime_new 2024 1 2 15 0 0 0 (Some 0)),
                g_end = GDateTime (datetime_new 2024 1 2 16 0 0 0 (Some 0))\<rparr>],
          printed = [ErrorCreating ''Retro'' (BackendError ''timed out'')]\<rparr>
   \<and> update_event_in_target failing_engine standup standup_with_notes ''icloud_to_google''
         empty_world
       = \<lparr>calls =
            [GoogleUpdateEvent ''g2''
               \<lparr>g_summary = ''Standup'', g_description = [], g_location = [],
                g_start = GDateTime (datetime_new 2024 1 1 9 0 0 0 (Some 0)),
                g_end = GDateTime (datetime_new 2024 1 1 9 30 0 0 (Some 0))\<rparr>],
          printed = [ErrorUpdating ''Standup'' (BackendError ''timed out'')]\<rparr>"
proof -
  let ?fail = "\<lambda>cs c. Some ''timed out''"
  let ?standup_data =
    "\<lparr>g_summary = ''Standup'', g_description = [], g_location = [],
      g_start = GDateTime (datetime_new 2024 1 1 9 0 0 0 (Some 0)),
      g_end = GDateTime (datetime_new 2024 1 1 9 30 0 0 (Some 0))\<rparr>"
  let ?retro_data =
    "\<lparr>g_summary = ''Retro'', g_description = [], g_location = ''Room 2'',
      g_start = GDateTime (datetime_new 2024 1 2 15 0 0 0 (Some 0)),
      g_end = GDateTime (datetime_new 2024 1 2 16 0 0 0 (Some 0))\<rparr>"
  have failing: "failing_engine = example_engine\<lparr>backend := ?fail\<rparr>"
    by (simp add: failing_engine_def)
  have conv_standup: "convert_to_google_format failing_engine standup = Inr ?standup_data"
    by code_simp
  have conv_retro: "convert_to_google_format failing_engine retro = Inr ?retro_data"
    by code_simp
  have fields: "summary standup = ''Standup''" "summary retro = ''Retro''"
    "event_id standup_with_notes = Some ''g2''"
    by (simp_all add: standup_def retro_def standup_with_notes_def)
  have fails: "backend failing_engine cs c = Some ''timed out''" for cs c
    by (simp add: failing_engine_def)
  note pass = backend_failure_caught_and_counted[where self=example_engine and b="?fail"
      and source_events="[standup, retro]" and target_events="[standup_with_notes]"
      and direction="''icloud_to_google''" and dry_run=False and avoid_conflicts=False
      and w=empty_world, folded failing]
  note icloud_create = backend_failure_caught_and_counted[where self=failing_engine
      and w=empty_world and event=standup and msg="''timed out''"]
  note google_create = backend_failure_caught_and_counted[where self=failing_engine
      and w=empty_world and event=retro and event_data="?retro_data" and msg="''timed out''"]
  note google_update = backend_failure_caught_and_counted[where self=failing_engine
      and w=empty_world and event=standup and target_event=standup_with_notes
      and event_data="?standup_data" and eid="''g2''" and msg="''timed out''"]
  have run: "fst (sync_events example_engine [standup, retro] [standup_with_notes]
                    ''icloud_to_google'' False False empty_world)
               = \<lparr>created = 1, updated = 1, skipped = 0\<rparr>"
    "calls (snd (sync_events example_engine [standup, retro] [standup_with_notes]
                   ''icloud_to_google'' False False empty_world))
       = [GoogleUpdateEvent ''g2'' ?standup_data, GoogleCreateEvent ?retro_data]"
    "other_lines (printed (snd (sync_events example_engine [standup, retro]
                                 [standup_with_notes] ''icloud_to_google'' False False
                                 empty_world)))
       = [Updating False ''Standup'', Creating False ''Retro'']"
    using pass by (simp_all add: failing_pass other_lines_def)
  have c1: "create_event_in_target failing_engine standup ''google_to_icloud'' empty_world
       = \<lparr>calls = [ICloudCreateEvent (convert_to_icloud_format standup)],
          printed = [ErrorCreating ''Standup'' (BackendError ''timed out'')]\<rparr>"
    using icloud_create by (simp add: fails fields empty_world_def)
  have c2: "create_event_in_target failing_engine retro ''icloud_to_google'' empty_world
       = \<lparr>calls = [GoogleCreateEvent ?retro_data],
          printed = [ErrorCreating ''Retro'' (BackendError ''timed out'')]\<rparr>"
    using google_create by (simp add: fails fields conv_retro empty_world_def)
  have c3: "update_event_in_target failing_engine standup standup_with_notes
              ''icloud_to_google'' empty_world
       = \<lparr>calls = [GoogleUpdateEvent ''g2'' ?standup_data],
          printed = [ErrorUpdating ''Standup'' (BackendError ''timed out'')]\<rparr>"
    using google_update by (simp add: fails fields conv_standup empty_world_def)
  show ?thesis
    using run c1 c2 c3 by (simp add: failing_pass)
qed







end
